theory Spec2Isabelle
  imports Complex_Main
begin

section \<open>Configuration constants\<close>

text \<open>
  Every module starts with \<^verbatim>\<open>from config import *\<close>; the module \<^verbatim>\<open>config\<close>
  itself is not part of the sources, so the named constants it supplies are taken as a
  parameter: one record, passed to every function that reads a constant. Python numbers
  (int or float) are modelled as \<^typ>\<open>real\<close>; lane indices and directions, which the
  code only compares with integer literals, as \<^typ>\<open>int\<close>.
\<close>

record config =
  SAFE_DISTANCE :: real
  LANE_CHANGE_MIN_GAP :: real
  LANE_CHANGE_COOLDOWN :: real
  NUM_LANES :: int
  LANE_WIDTH :: real
  ROAD_Y_START :: real
  ROAD_WIDTH :: real
  SCREEN_WIDTH :: real
  INTERSECTION_X :: real
  INTERSECTION_WIDTH :: real
  LIGHT_GREEN_TIME :: real
  LIGHT_YELLOW_TIME :: real
  ADAPTIVE_LIGHT_THRESHOLD :: real
  CROSSWALK_WAIT_TIME :: real
  PEDESTRIAN_SPEED :: real
  SPAWN_INTERVAL :: real
  AMBULANCE_SPAWN_CHANCE :: real
  CAR_NORMAL_LENGTH :: real
  CAR_NORMAL_WIDTH :: real
  CAR_NORMAL_MAX_SPEED :: real
  CAR_NORMAL_ACCELERATION :: real
  TRUCK_LENGTH :: real
  TRUCK_WIDTH :: real
  TRUCK_MAX_SPEED :: real
  TRUCK_ACCELERATION :: real
  SPORTS_LENGTH :: real
  SPORTS_WIDTH :: real
  SPORTS_MAX_SPEED :: real
  SPORTS_ACCELERATION :: real
  AMBULANCE_LENGTH :: real
  AMBULANCE_WIDTH :: real
  AMBULANCE_MAX_SPEED :: real
  AMBULANCE_ACCELERATION :: real

section \<open>Vehicle data (vehicle.py)\<close>

text \<open>
  A \<^verbatim>\<open>Vehicle\<close> object. Fields whose Python name clashes with a HOL constant or
  with another record carry the suffix \<open>_v\<close>. The colour is cosmetic and left out. The
  subclass is recorded in \<open>vehicle_type\<close>, as the constructors do; \<open>siren_state\<close>
  is only read for an ambulance.
\<close>

record vehicle =
  x_v :: real
  y_v :: real
  lane :: int
  direction_v :: int
  length_v :: real
  width_v :: real
  max_speed :: real
  acceleration :: real
  vehicle_type :: string
  speed :: real
  target_speed :: real
  lane_change_cooldown :: real
  passed_intersection :: bool
  stopped_at_light :: bool
  siren_state :: real

section \<open>Traffic light (traffic\_light.py)\<close>

record traffic_light =
  state_l :: string
  timer :: real
  adaptive_mode :: bool

definition TrafficLight_init :: traffic_light where
  "TrafficLight_init = \<lparr>state_l = ''ew_green'', timer = 0, adaptive_mode = False\<rparr>"

definition get_front_x :: "vehicle \<Rightarrow> real" where
  "get_front_x v = (if direction_v v = 1 then x_v v else x_v v - length_v v)"

text \<open>
  The counting loop of \<^verbatim>\<open>calculate_adaptive_time\<close>: the pair of counters
  \<open>(ew_queue, ns_queue)\<close> is threaded through the vehicles in list order.
\<close>

fun count_queues :: "config \<Rightarrow> vehicle list \<Rightarrow> nat \<times> nat \<Rightarrow> nat \<times> nat" where
  "count_queues c [] q = q"
| "count_queues c (v # vs) (ew_queue, ns_queue) =
     (if speed v < 10 then
        (if direction_v v = 1 \<or> direction_v v = -1 then
           (if \<bar>get_front_x v - INTERSECTION_X c\<bar> < 200 then
              (if lane v \<in> set [0, 1]
               then count_queues c vs (ew_queue + 1, ns_queue)
               else count_queues c vs (ew_queue, ns_queue + 1))
            else count_queues c vs (ew_queue, ns_queue))
         else count_queues c vs (ew_queue, ns_queue))
      else count_queues c vs (ew_queue, ns_queue))"

definition calculate_adaptive_time :: "config \<Rightarrow> traffic_light \<Rightarrow> vehicle list \<Rightarrow> real" where
  "calculate_adaptive_time c light vehicles =
     (let (ew_queue, ns_queue) = count_queues c vehicles (0, 0);
          base_time = LIGHT_GREEN_TIME c
      in if state_l light \<in> set [''ew_green'', ''ew_yellow''] then
           (if real ew_queue > ADAPTIVE_LIGHT_THRESHOLD c then base_time * 1.5 else base_time)
         else if state_l light \<in> set [''ns_green'', ''ns_yellow''] then
           (if real ns_queue > ADAPTIVE_LIGHT_THRESHOLD c then base_time * 1.5 else base_time)
         else base_time)"


text \<open>\<^verbatim>\<open>get_light_state(direction)\<close>: the argument is never read.\<close>

definition get_light_state :: "traffic_light \<Rightarrow> int \<Rightarrow> string" where
  "get_light_state light direction =
     (if state_l light = ''ew_green'' then ''green''
      else if state_l light = ''ew_yellow'' then ''yellow''
      else if state_l light \<in> set [''ns_green'', ''ns_yellow''] then ''red''
      else ''red'')"

definition toggle_adaptive :: "traffic_light \<Rightarrow> traffic_light" where
  "toggle_adaptive light = light\<lparr>adaptive_mode := \<not> adaptive_mode light\<rparr>"

section \<open>Vehicle behaviour (vehicle.py)\<close>

text \<open>\<^verbatim>\<open>Vehicle.__init__\<close> and the four subclasses' constructors.\<close>

definition Vehicle_init ::
  "real \<Rightarrow> real \<Rightarrow> int \<Rightarrow> int \<Rightarrow> real \<Rightarrow> real \<Rightarrow> real \<Rightarrow> real \<Rightarrow> string \<Rightarrow> vehicle" where
  "Vehicle_init x y lane_idx d len w ms acc vt =
     \<lparr>x_v = x, y_v = y, lane = lane_idx, direction_v = d, length_v = len, width_v = w,
      max_speed = ms, acceleration = acc, vehicle_type = vt,
      speed = ms * 0.8, target_speed = ms, lane_change_cooldown = 0,
      passed_intersection = False, stopped_at_light = False, siren_state = 0\<rparr>"

definition NormalCar :: "config \<Rightarrow> real \<Rightarrow> real \<Rightarrow> int \<Rightarrow> int \<Rightarrow> vehicle" where
  "NormalCar c x y lane_idx d =
     Vehicle_init x y lane_idx d (CAR_NORMAL_LENGTH c) (CAR_NORMAL_WIDTH c)
       (CAR_NORMAL_MAX_SPEED c) (CAR_NORMAL_ACCELERATION c) ''car''"

definition Truck :: "config \<Rightarrow> real \<Rightarrow> real \<Rightarrow> int \<Rightarrow> int \<Rightarrow> vehicle" where
  "Truck c x y lane_idx d =
     Vehicle_init x y lane_idx d (TRUCK_LENGTH c) (TRUCK_WIDTH c)
       (TRUCK_MAX_SPEED c) (TRUCK_ACCELERATION c) ''truck''"

definition SportsCar :: "config \<Rightarrow> real \<Rightarrow> real \<Rightarrow> int \<Rightarrow> int \<Rightarrow> vehicle" where
  "SportsCar c x y lane_idx d =
     Vehicle_init x y lane_idx d (SPORTS_LENGTH c) (SPORTS_WIDTH c)
       (SPORTS_MAX_SPEED c) (SPORTS_ACCELERATION c) ''sports''"

definition Ambulance :: "config \<Rightarrow> real \<Rightarrow> real \<Rightarrow> int \<Rightarrow> int \<Rightarrow> vehicle" where
  "Ambulance c x y lane_idx d =
     Vehicle_init x y lane_idx d (AMBULANCE_LENGTH c) (AMBULANCE_WIDTH c)
       (AMBULANCE_MAX_SPEED c) (AMBULANCE_ACCELERATION c) ''ambulance''"

definition distance_to_vehicle :: "vehicle \<Rightarrow> vehicle \<Rightarrow> real" where
  "distance_to_vehicle self other =
     (if direction_v self = 1 then x_v other - (x_v self + length_v self)
      else (x_v self - length_v self) - x_v other)"

text \<open>\<^verbatim>\<open>distance_to_light\<close>; its \<^verbatim>\<open>traffic_light\<close> argument is never read.\<close>

definition distance_to_light :: "config \<Rightarrow> vehicle \<Rightarrow> real" where
  "distance_to_light c self =
     (if direction_v self = 1 then INTERSECTION_X c - (x_v self + length_v self)
      else (x_v self - length_v self) - (INTERSECTION_X c + INTERSECTION_WIDTH c))"

text \<open>
  The methods receive the shared list \<^verbatim>\<open>vehicles\<close>, which holds \<^verbatim>\<open>self\<close> too,
  and \<^verbatim>\<open>v == self\<close> is object identity. The list is the store and a vehicle is
  addressed by its position \<open>i\<close> in it: \<^verbatim>\<open>self\<close> is \<open>vehicles ! i\<close> and
  \<^verbatim>\<open>v == self\<close> is \<open>j = i\<close>. A method that mutates a vehicle returns the list
  with that position replaced.

  \<^verbatim>\<open>find_vehicle_ahead\<close>: the loop carries \<open>(nearest, min_distance)\<close>, where
  \<open>None\<close> stands for Python's \<^verbatim>\<open>None\<close> and for \<^verbatim>\<open>float('inf')\<close>.
\<close>

fun find_vehicle_ahead_loop ::
  "vehicle \<Rightarrow> nat \<Rightarrow> nat \<Rightarrow> vehicle list \<Rightarrow> vehicle option \<times> real option \<Rightarrow> vehicle option" where
  "find_vehicle_ahead_loop self i j [] (nearest, min_distance) = nearest"
| "find_vehicle_ahead_loop self i j (v # vs) (nearest, min_distance) =
     (if j = i \<or> lane v \<noteq> lane self \<or> direction_v v \<noteq> direction_v self
      then find_vehicle_ahead_loop self i (Suc j) vs (nearest, min_distance)
      else
        (let distance = distance_to_vehicle self v
         in if distance > 0 \<and> (case min_distance of None \<Rightarrow> True | Some m \<Rightarrow> distance < m)
            then find_vehicle_ahead_loop self i (Suc j) vs (Some v, Some distance)
            else find_vehicle_ahead_loop self i (Suc j) vs (nearest, min_distance)))"

definition find_vehicle_ahead :: "nat \<Rightarrow> vehicle list \<Rightarrow> vehicle option" where
  "find_vehicle_ahead i vehicles =
     find_vehicle_ahead_loop (vehicles ! i) i 0 vehicles (None, None)"

text \<open>
  The target-speed part of \<^verbatim>\<open>Vehicle.update\<close> (the light check and the
  \<^verbatim>\<open>if/elif/else\<close> that follows it), on \<^verbatim>\<open>self\<close> after its cooldown was
  counted down.
\<close>

definition should_stop_at_light :: "config \<Rightarrow> traffic_light \<Rightarrow> vehicle \<Rightarrow> bool" where
  "should_stop_at_light c light self =
     (let light_distance = distance_to_light c self
      in light_distance > 0 \<and> light_distance < 150
         \<and> get_light_state light (direction_v self) \<in> set [''red'', ''yellow''])"

definition determine_target_speed ::
  "config \<Rightarrow> traffic_light \<Rightarrow> vehicle option \<Rightarrow> vehicle \<Rightarrow> vehicle" where
  "determine_target_speed c light vehicle_ahead self0 =
     (let light_distance = distance_to_light c self0;
          stop = should_stop_at_light c light self0;
          self = (if stop then self0\<lparr>stopped_at_light := True\<rparr> else self0)
      in if stop \<and> light_distance < 100 then
           (let stop_distance = max (light_distance - 10) 0
            in if stop_distance < 50 then self\<lparr>target_speed := 0\<rparr>
               else self\<lparr>target_speed := max_speed self * (stop_distance / 100)\<rparr>)
         else
           (case vehicle_ahead of
              Some ahead \<Rightarrow>
                (let gap = distance_to_vehicle self ahead
                 in if gap < SAFE_DISTANCE c then self\<lparr>target_speed := speed ahead * 0.9\<rparr>
                    else if gap < SAFE_DISTANCE c * 2 then self\<lparr>target_speed := speed ahead\<rparr>
                    else self\<lparr>target_speed := max_speed self\<rparr>)
            | None \<Rightarrow>
                (let self' = self\<lparr>target_speed := max_speed self\<rparr>
                 in if stopped_at_light self' \<and> light_distance \<noteq> 0 \<and> light_distance > 50
                    then self'\<lparr>stopped_at_light := False\<rparr> else self')))"

text \<open>
  "Accelerate/decelerate smoothly": the same statements close \<^verbatim>\<open>Vehicle.update\<close>
  and \<^verbatim>\<open>Ambulance.update\<close>. Python's three-argument \<^verbatim>\<open>max\<close> is nested.
\<close>

definition accelerate_smoothly :: "real \<Rightarrow> vehicle \<Rightarrow> vehicle" where
  "accelerate_smoothly dt self =
     (if speed self < target_speed self then
        self\<lparr>speed := min (speed self + acceleration self * dt) (target_speed self)\<rparr>
      else if speed self > target_speed self then
        (let decel = acceleration self * 1.5
         in self\<lparr>speed := max (max (speed self - decel * dt) (target_speed self)) 0\<rparr>)
      else self)"

text \<open>"Move vehicle" and "Mark if passed intersection".\<close>

definition move_vehicle :: "config \<Rightarrow> real \<Rightarrow> vehicle \<Rightarrow> vehicle" where
  "move_vehicle c dt self0 =
     (let self = self0\<lparr>x_v := x_v self0 + speed self0 * dt * real_of_int (direction_v self0)\<rparr>
      in if direction_v self = 1 \<and> x_v self > INTERSECTION_X c + INTERSECTION_WIDTH c
         then self\<lparr>passed_intersection := True\<rparr>
         else if direction_v self = -1 \<and> x_v self < INTERSECTION_X c
         then self\<lparr>passed_intersection := True\<rparr>
         else self)"

definition count_down_cooldown :: "real \<Rightarrow> vehicle \<Rightarrow> vehicle" where
  "count_down_cooldown dt self =
     (if lane_change_cooldown self > 0
      then self\<lparr>lane_change_cooldown := lane_change_cooldown self - dt\<rparr> else self)"

text \<open>\<^verbatim>\<open>Vehicle.update(dt, vehicles, traffic_light, time_scale)\<close> of the vehicle at \<open>i\<close>.\<close>

definition Vehicle_update ::
  "config \<Rightarrow> real \<Rightarrow> vehicle list \<Rightarrow> traffic_light \<Rightarrow> real \<Rightarrow> nat \<Rightarrow> vehicle list" where
  "Vehicle_update c dt vehicles light time_scale i =
     (let dt' = dt * time_scale;
          vehicles1 = vehicles[i := count_down_cooldown dt' (vehicles ! i)];
          vehicle_ahead = find_vehicle_ahead i vehicles1;
          self = determine_target_speed c light vehicle_ahead (vehicles1 ! i)
      in vehicles1[i := move_vehicle c dt' (accelerate_smoothly dt' self)])"

text \<open>
  \<^verbatim>\<open>can_change_lane\<close>: the loop returns \<^verbatim>\<open>False\<close> at the first vehicle of the
  target lane that fails the gap test.
\<close>

fun can_change_lane_loop ::
  "config \<Rightarrow> vehicle \<Rightarrow> nat \<Rightarrow> int \<Rightarrow> nat \<Rightarrow> vehicle list \<Rightarrow> bool" where
  "can_change_lane_loop c self i target_lane j [] = True"
| "can_change_lane_loop c self i target_lane j (v # vs) =
     (if j = i \<or> lane v \<noteq> target_lane \<or> direction_v v \<noteq> direction_v self
      then can_change_lane_loop c self i target_lane (Suc j) vs
      else
        (let gap_front = (if direction_v self = 1 then x_v v - (x_v self + length_v self)
                          else (x_v self - length_v self) - x_v v);
             gap_rear = (if direction_v self = 1 then x_v self - (x_v v + length_v v)
                         else x_v v - length_v v - x_v self)
         in if gap_front > - length_v self \<and> gap_rear > - length_v self
               \<and> (\<bar>gap_front\<bar> < LANE_CHANGE_MIN_GAP c \<or> \<bar>gap_rear\<bar> < LANE_CHANGE_MIN_GAP c)
            then False
            else can_change_lane_loop c self i target_lane (Suc j) vs))"

definition can_change_lane :: "config \<Rightarrow> nat \<Rightarrow> int \<Rightarrow> vehicle list \<Rightarrow> bool" where
  "can_change_lane c i target_lane vehicles =
     (let self = vehicles ! i
      in if lane_change_cooldown self > 0 then False
         else if target_lane < 0 \<or> target_lane \<ge> NUM_LANES c then False
         else can_change_lane_loop c self i target_lane 0 vehicles)"

definition lanes_to_try :: "vehicle \<Rightarrow> int list" where
  "lanes_to_try self =
     (if direction_v self = 1 then
        (if lane self = 0 then [1] else if lane self = 1 then [0] else [])
      else
        (if lane self = 2 then [3] else if lane self = 3 then [2] else []))"

text \<open>
  The closing loop of \<^verbatim>\<open>attempt_lane_change\<close>; Python's \<^verbatim>\<open>//\<close> is floor
  division.
\<close>

fun try_lanes :: "config \<Rightarrow> nat \<Rightarrow> int list \<Rightarrow> vehicle list \<Rightarrow> vehicle list" where
  "try_lanes c i [] vehicles = vehicles"
| "try_lanes c i (target_lane # rest) vehicles =
     (if can_change_lane c i target_lane vehicles then
        (let self = vehicles ! i
         in vehicles[i := self\<lparr>lane := target_lane,
              y_v := ROAD_Y_START c + real_of_int target_lane * LANE_WIDTH c
                     + real_of_int \<lfloor>(LANE_WIDTH c - width_v self) / 2\<rfloor>,
              lane_change_cooldown := LANE_CHANGE_COOLDOWN c\<rparr>])
      else try_lanes c i rest vehicles)"

definition attempt_lane_change :: "config \<Rightarrow> nat \<Rightarrow> vehicle list \<Rightarrow> vehicle list" where
  "attempt_lane_change c i vehicles =
     (let self = vehicles ! i
      in case find_vehicle_ahead i vehicles of
           None \<Rightarrow> vehicles
         | Some vehicle_ahead \<Rightarrow>
             (let gap = distance_to_vehicle self vehicle_ahead
              in if gap > SAFE_DISTANCE c * 2 then vehicles
                 else try_lanes c i (lanes_to_try self) vehicles))"

text \<open>
  \<^verbatim>\<open>Ambulance.clear_path\<close>: one pass over the positions of the list; a vehicle
  re-laned by an earlier iteration is seen re-laned by the later ones.
\<close>

definition clear_path_step :: "config \<Rightarrow> nat \<Rightarrow> nat \<Rightarrow> vehicle list \<Rightarrow> vehicle list" where
  "clear_path_step c i j vehicles =
     (let self = vehicles ! i; v = vehicles ! j
      in if j = i \<or> vehicle_type v = ''ambulance'' then vehicles
         else if lane v = lane self \<and> direction_v v = direction_v self then
           (let distance = distance_to_vehicle self v
            in if 0 < distance \<and> distance < 150 then attempt_lane_change c j vehicles
               else vehicles)
         else vehicles)"

definition clear_path :: "config \<Rightarrow> nat \<Rightarrow> vehicle list \<Rightarrow> vehicle list" where
  "clear_path c i vehicles = fold (clear_path_step c i) [0..<length vehicles] vehicles"

text \<open>The target-speed part of \<^verbatim>\<open>Ambulance.update\<close>.\<close>

definition ambulance_target_speed ::
  "config \<Rightarrow> traffic_light \<Rightarrow> vehicle option \<Rightarrow> vehicle \<Rightarrow> vehicle" where
  "ambulance_target_speed c light vehicle_ahead self =
     (let light_distance = distance_to_light c self;
          should_slow_at_light =
            (light_distance > 0 \<and> light_distance < 80
             \<and> get_light_state light (direction_v self) = ''red'')
      in if should_slow_at_light \<and> light_distance < 60 then
           self\<lparr>target_speed := max_speed self * 0.5\<rparr>
         else
           (case vehicle_ahead of
              Some ahead \<Rightarrow>
                (let gap = distance_to_vehicle self ahead
                 in if gap < SAFE_DISTANCE c * 0.5 then self\<lparr>target_speed := speed ahead * 0.95\<rparr>
                    else self\<lparr>target_speed := max_speed self\<rparr>)
            | None \<Rightarrow> self\<lparr>target_speed := max_speed self\<rparr>))"

text \<open>Python's \<^verbatim>\<open>%\<close> on numbers, for a positive modulus.\<close>

definition py_mod :: "real \<Rightarrow> real \<Rightarrow> real" where
  "py_mod a b = a - b * real_of_int \<lfloor>a / b\<rfloor>"

definition Ambulance_update ::
  "config \<Rightarrow> real \<Rightarrow> vehicle list \<Rightarrow> traffic_light \<Rightarrow> real \<Rightarrow> nat \<Rightarrow> vehicle list" where
  "Ambulance_update c dt vehicles light time_scale i =
     (let dt' = dt * time_scale;
          self0 = vehicles ! i;
          self1 = self0\<lparr>siren_state := py_mod (siren_state self0 + dt' * 5) 2\<rparr>;
          vehicles1 = vehicles[i := count_down_cooldown dt' self1];
          vehicles2 = clear_path c i vehicles1;
          vehicle_ahead = find_vehicle_ahead i vehicles2;
          self = ambulance_target_speed c light vehicle_ahead (vehicles2 ! i)
      in vehicles2[i := move_vehicle c dt' (accelerate_smoothly dt' self)])"

text \<open>
  \<^verbatim>\<open>vehicle.update(...)\<close> as the simulation calls it: the class of the object selects
  the method, and the class is what \<open>vehicle_type\<close> records.
\<close>

definition update_vehicle ::
  "config \<Rightarrow> real \<Rightarrow> vehicle list \<Rightarrow> traffic_light \<Rightarrow> real \<Rightarrow> nat \<Rightarrow> vehicle list" where
  "update_vehicle c dt vehicles light time_scale i =
     (if vehicle_type (vehicles ! i) = ''ambulance''
      then Ambulance_update c dt vehicles light time_scale i
      else Vehicle_update c dt vehicles light time_scale i)"

section \<open>Pedestrians (pedestrian.py)\<close>

record pedestrian =
  side :: string
  direction_p :: int
  state_p :: string
  wait_timer :: real
  x_p :: real
  y_p :: real
  target_y :: real

definition Pedestrian_init :: "config \<Rightarrow> string \<Rightarrow> int \<Rightarrow> pedestrian" where
  "Pedestrian_init c sd d =
     \<lparr>side = sd, direction_p = d, state_p = ''waiting'', wait_timer = 0,
      x_p = (if d = 1 then INTERSECTION_X c - 50
             else INTERSECTION_X c + INTERSECTION_WIDTH c + 50),
      y_p = (if sd = ''top'' then ROAD_Y_START c - 30
             else ROAD_Y_START c + ROAD_WIDTH c + 30),
      target_y = (if sd = ''top'' then ROAD_Y_START c + ROAD_WIDTH c + 30
                  else ROAD_Y_START c - 30)\<rparr>"

text \<open>\<^verbatim>\<open>Pedestrian.update(dt, traffic_light, time_scale)\<close>, returning the updated pedestrian.\<close>

definition Pedestrian_update ::
  "config \<Rightarrow> real \<Rightarrow> traffic_light \<Rightarrow> real \<Rightarrow> pedestrian \<Rightarrow> pedestrian" where
  "Pedestrian_update c dt light time_scale p =
     (let dt' = dt * time_scale
      in if state_p p = ''waiting'' then
           (let p1 = p\<lparr>wait_timer := wait_timer p + dt'\<rparr>
            in if wait_timer p1 > CROSSWALK_WAIT_TIME c then
                 (if state_l light \<in> set [''ns_green'', ''ns_yellow'']
                  then p1\<lparr>state_p := ''crossing''\<rparr> else p1)
               else p1)
         else if state_p p = ''crossing'' then
           (if side p = ''top'' then
              (let p1 = p\<lparr>y_p := y_p p + PEDESTRIAN_SPEED c * dt'\<rparr>
               in if y_p p1 \<ge> target_y p1 then p1\<lparr>state_p := ''done''\<rparr> else p1)
            else
              (let p1 = p\<lparr>y_p := y_p p - PEDESTRIAN_SPEED c * dt'\<rparr>
               in if y_p p1 \<le> target_y p1 then p1\<lparr>state_p := ''done''\<rparr> else p1))
         else p)"

definition is_done :: "pedestrian \<Rightarrow> bool" where
  "is_done p = (state_p p = ''done'')"

text \<open>
  A pedestrian's life: \<^verbatim>\<open>update\<close> is called once per tick with that tick's
  \<open>(dt, traffic_light, time_scale)\<close>.
\<close>

fun Pedestrian_run ::
  "config \<Rightarrow> (real \<times> traffic_light \<times> real) list \<Rightarrow> pedestrian \<Rightarrow> pedestrian" where
  "Pedestrian_run c [] p = p"
| "Pedestrian_run c ((dt, light, time_scale) # ticks) p =
     Pedestrian_run c ticks (Pedestrian_update c dt light time_scale p)"

section \<open>Spawning (simulation.py)\<close>

text \<open>
  The random draws are made explicit: \<open>rand\<close> is the value of one
  \<^verbatim>\<open>random.random()\<close> call, and \<open>k\<close> the index that \<^verbatim>\<open>random.choice\<close>
  draws in its argument.
\<close>

definition random_choice :: "'a list \<Rightarrow> nat \<Rightarrow> 'a" where
  "random_choice xs k = xs ! (k mod length xs)"

definition create_random_vehicle ::
  "config \<Rightarrow> real \<Rightarrow> real \<Rightarrow> real \<Rightarrow> int \<Rightarrow> int \<Rightarrow> vehicle" where
  "create_random_vehicle c rand x y lane_idx d =
     (if rand < AMBULANCE_SPAWN_CHANCE c then Ambulance c x y lane_idx d
      else if rand < 0.15 then Truck c x y lane_idx d
      else if rand < 0.25 then SportsCar c x y lane_idx d
      else NormalCar c x y lane_idx d)"

text \<open>The loop of \<^verbatim>\<open>spawn_vehicle\<close> that checks whether the spawn position is clear.\<close>

fun can_spawn_loop :: "config \<Rightarrow> int \<Rightarrow> int \<Rightarrow> vehicle list \<Rightarrow> bool \<Rightarrow> bool" where
  "can_spawn_loop c lane_idx d [] can_spawn = can_spawn"
| "can_spawn_loop c lane_idx d (v # vs) can_spawn =
     (if lane v = lane_idx \<and> direction_v v = d then
        (if d = 1 \<and> x_v v < 200 then can_spawn_loop c lane_idx d vs False
         else if d = -1 \<and> x_v v > SCREEN_WIDTH c - 200 then can_spawn_loop c lane_idx d vs False
         else can_spawn_loop c lane_idx d vs can_spawn)
      else can_spawn_loop c lane_idx d vs can_spawn)"

text \<open>
  What \<^verbatim>\<open>spawn_vehicle\<close> requests: direction, lane and entry coordinates, from
  the draws \<open>rand_dir\<close> and \<open>k_lane\<close>.
\<close>

definition spawn_request :: "config \<Rightarrow> real \<Rightarrow> nat \<Rightarrow> int \<times> int \<times> real \<times> real" where
  "spawn_request c rand_dir k_lane =
     (let (d, lane_idx, x) =
            (if rand_dir < 0.5 then (1, random_choice [0, 1] k_lane, - 100)
             else (- 1, random_choice [2, 3] k_lane, SCREEN_WIDTH c + 100));
          y = ROAD_Y_START c + real_of_int lane_idx * LANE_WIDTH c
              + real_of_int \<lfloor>(LANE_WIDTH c - CAR_NORMAL_WIDTH c) / 2\<rfloor>
      in (d, lane_idx, x, y))"

definition spawn_vehicle :: "config \<Rightarrow> real \<Rightarrow> nat \<Rightarrow> real \<Rightarrow> vehicle list \<Rightarrow> vehicle list" where
  "spawn_vehicle c rand_dir k_lane rand_type vehicles =
     (let (d, lane_idx, x, y) = spawn_request c rand_dir k_lane;
          can_spawn = can_spawn_loop c lane_idx d vehicles True
      in if can_spawn
         then vehicles @ [create_random_vehicle c rand_type x y lane_idx d]
         else vehicles)"

text \<open>
  The "Spawn new vehicles" step of \<^verbatim>\<open>TrafficSimulation.update\<close>, on the two
  fields it touches: the vehicle list and the spawn timer.
\<close>

definition spawn_new_vehicles ::
  "config \<Rightarrow> real \<Rightarrow> real \<Rightarrow> real \<Rightarrow> nat \<Rightarrow> real \<Rightarrow> vehicle list \<times> real \<Rightarrow> vehicle list \<times> real" where
  "spawn_new_vehicles c dt time_scale rand_dir k_lane rand_type sim =
     (let (vehicles, spawn_timer0) = sim;
          spawn_timer = spawn_timer0 + dt * time_scale
      in if spawn_timer \<ge> SPAWN_INTERVAL c
         then (spawn_vehicle c rand_dir k_lane rand_type vehicles, 0)
         else (vehicles, spawn_timer))"

section \<open>Notions the claims are stated with\<close>

text \<open>
  The definitions of this section are not translations of source code. They name what
  the claims talk about, in the specification's own words, so that the theorems can
  compare the code with them.
\<close>

text \<open>A concrete configuration, for evaluating the code on examples.\<close>

definition demo_config :: config where
  "demo_config =
     \<lparr>SAFE_DISTANCE = 80, LANE_CHANGE_MIN_GAP = 40, LANE_CHANGE_COOLDOWN = 2,
      NUM_LANES = 4, LANE_WIDTH = 60, ROAD_Y_START = 300, ROAD_WIDTH = 240,
      SCREEN_WIDTH = 1400, INTERSECTION_X = 600, INTERSECTION_WIDTH = 200,
      LIGHT_GREEN_TIME = 5, LIGHT_YELLOW_TIME = 2, ADAPTIVE_LIGHT_THRESHOLD = 1,
      CROSSWALK_WAIT_TIME = 1, PEDESTRIAN_SPEED = 150, SPAWN_INTERVAL = 2,
      AMBULANCE_SPAWN_CHANCE = 1 / 20,
      CAR_NORMAL_LENGTH = 40, CAR_NORMAL_WIDTH = 20,
      CAR_NORMAL_MAX_SPEED = 100, CAR_NORMAL_ACCELERATION = 50,
      TRUCK_LENGTH = 70, TRUCK_WIDTH = 26,
      TRUCK_MAX_SPEED = 60, TRUCK_ACCELERATION = 30,
      SPORTS_LENGTH = 44, SPORTS_WIDTH = 20,
      SPORTS_MAX_SPEED = 150, SPORTS_ACCELERATION = 80,
      AMBULANCE_LENGTH = 60, AMBULANCE_WIDTH = 24,
      AMBULANCE_MAX_SPEED = 130, AMBULANCE_ACCELERATION = 70\<rparr>"







text \<open>
  The claim's queue count. A vehicle's front is its leading edge in its direction of
  travel, as \<^verbatim>\<open>distance_to_light\<close> and \<^verbatim>\<open>distance_to_vehicle\<close> take it; the
  intersection spans from \<open>INTERSECTION_X\<close> to \<open>INTERSECTION_X + INTERSECTION_WIDTH\<close>.
  The count for a lane group is the number of its near-stopped vehicles whose front is
  within 200 units of the intersection.
\<close>

definition vehicle_front :: "vehicle \<Rightarrow> real" where
  "vehicle_front v = (if direction_v v = 1 then x_v v + length_v v else x_v v - length_v v)"

definition distance_to_intersection :: "config \<Rightarrow> vehicle \<Rightarrow> real" where
  "distance_to_intersection c v =
     max 0 (max (INTERSECTION_X c - vehicle_front v)
                (vehicle_front v - (INTERSECTION_X c + INTERSECTION_WIDTH c)))"

definition spec_queue_count :: "config \<Rightarrow> int set \<Rightarrow> vehicle list \<Rightarrow> nat" where
  "spec_queue_count c lanes vehicles =
     length (filter (\<lambda>v. speed v < 10 \<and> distance_to_intersection c v < 200 \<and> lane v \<in> lanes)
               vehicles)"

text \<open>The specification's invariant on lanes: lane groups are direction-exclusive.\<close>

definition well_formed_vehicle :: "vehicle \<Rightarrow> bool" where
  "well_formed_vehicle v =
     ((direction_v v = 1 \<and> lane v \<in> {0, 1}) \<or> (direction_v v = -1 \<and> lane v \<in> {2, 3}))"

text \<open>
  Two westbound cars at a standstill 5 units before their stop line, and two eastbound
  cars at a standstill 170 units before theirs.
\<close>

definition westbound_queue :: "vehicle list" where
  "westbound_queue =
     [(NormalCar demo_config 845 440 2 (- 1))\<lparr>speed := 0\<rparr>,
      (NormalCar demo_config 845 500 3 (- 1))\<lparr>speed := 0\<rparr>]"

definition eastbound_queue :: "vehicle list" where
  "eastbound_queue =
     [(NormalCar demo_config 390 320 0 1)\<lparr>speed := 0\<rparr>,
      (NormalCar demo_config 390 380 1 1)\<lparr>speed := 0\<rparr>]"

text \<open>
  A pedestrian has reached its target: the comparison the code makes, which depends on
  the side it started from.
\<close>

definition reached_target :: "pedestrian \<Rightarrow> bool" where
  "reached_target p = (if side p = ''top'' then y_p p \<ge> target_y p else y_p p \<le> target_y p)"

text \<open>The order of the pedestrian states: waiting, crossing, done.\<close>

definition state_rank :: "string \<Rightarrow> nat" where
  "state_rank s = (if s = ''waiting'' then 0 else if s = ''crossing'' then 1 else 2)"

text \<open>What every update of a pedestrian preserves.\<close>

definition ped_inv :: "pedestrian \<Rightarrow> bool" where
  "ped_inv p = (state_p p \<in> {''waiting'', ''crossing'', ''done''}
                \<and> (state_p p = ''done'' \<longleftrightarrow> reached_target p))"

text \<open>A light that shows north-south green, for examples.\<close>

definition ns_light :: traffic_light where
  "ns_light = TrafficLight_init\<lparr>state_l := ''ns_green''\<rparr>"

text \<open>
  The vehicle at position \<open>j\<close> is ahead of the one at \<open>i\<close>: another vehicle of the
  same lane and direction at a positive front-to-rear gap.
\<close>

definition candidate_ahead :: "vehicle \<Rightarrow> nat \<Rightarrow> nat \<Rightarrow> vehicle \<Rightarrow> bool" where
  "candidate_ahead self i j v =
     (j \<noteq> i \<and> lane v = lane self \<and> direction_v v = direction_v self
      \<and> distance_to_vehicle self v > 0)"

definition ahead_of :: "nat \<Rightarrow> vehicle list \<Rightarrow> nat \<Rightarrow> bool" where
  "ahead_of i vehicles j =
     (j < length vehicles \<and> candidate_ahead (vehicles ! i) i j (vehicles ! j))"

text \<open>
  The specification's car-following scenario, with two normal cars (of length 40), and
  with a follower of length 20 behind a slower leader.
\<close>

definition scenario_vehicles :: "vehicle list" where
  "scenario_vehicles = [NormalCar demo_config 100 320 0 1, NormalCar demo_config 130 320 0 1]"

definition short_scenario_vehicles :: "vehicle list" where
  "short_scenario_vehicles =
     [Vehicle_init 100 320 0 1 20 10 100 50 ''car'',
      (NormalCar demo_config 130 320 0 1)\<lparr>speed := 50\<rparr>]"

text \<open>
  A truck that has reached its maximum speed, 100 units behind a sports car; and an
  ambulance 100 units behind a car in the same lane, with the adjacent lane empty.
\<close>

definition truck_behind_sports :: "vehicle list" where
  "truck_behind_sports =
     [(Truck demo_config 0 320 0 1)\<lparr>speed := 60\<rparr>, SportsCar demo_config 170 320 0 1]"

definition ambulance_behind_car :: "vehicle list" where
  "ambulance_behind_car = [Ambulance demo_config 0 320 0 1, NormalCar demo_config 160 320 0 1]"

text \<open>
  A successful lane change, as the specification words it: the vehicle is re-laned,
  re-centred within the new lane, and its cooldown timer is reset.
\<close>

definition lane_changed :: "config \<Rightarrow> int \<Rightarrow> vehicle \<Rightarrow> vehicle" where
  "lane_changed c target_lane self =
     self\<lparr>lane := target_lane,
          y_v := ROAD_Y_START c + real_of_int target_lane * LANE_WIDTH c
                 + real_of_int \<lfloor>(LANE_WIDTH c - width_v self) / 2\<rfloor>,
          lane_change_cooldown := LANE_CHANGE_COOLDOWN c\<rparr>"

text \<open>A car whose cooldown is running.\<close>

definition cooling_car :: "vehicle list" where
  "cooling_car = [(NormalCar demo_config 100 320 0 1)\<lparr>lane_change_cooldown := 1\<rparr>]"

text \<open>
  A vehicle blocks a spawn request for a lane and direction: the test of the loop in
  \<^verbatim>\<open>spawn_vehicle\<close> on one vehicle.
\<close>

definition blocks_spawn :: "config \<Rightarrow> int \<Rightarrow> int \<Rightarrow> vehicle \<Rightarrow> bool" where
  "blocks_spawn c lane_idx d v =
     (lane v = lane_idx \<and> direction_v v = d
      \<and> ((d = 1 \<and> x_v v < 200) \<or> (d = -1 \<and> x_v v > SCREEN_WIDTH c - 200)))"

text \<open>A single eastbound car in lane 0 at x = 150.\<close>

definition car_near_entry :: "vehicle list" where
  "car_near_entry = [NormalCar demo_config 150 320 0 1]"

section \<open>The traffic light\<close>

text \<open>The fields of the example configuration.\<close>

lemma demo_config_fields:
  "SAFE_DISTANCE demo_config = 80" "LANE_CHANGE_MIN_GAP demo_config = 40"
  "LANE_CHANGE_COOLDOWN demo_config = 2" "NUM_LANES demo_config = 4"
  "LANE_WIDTH demo_config = 60" "ROAD_Y_START demo_config = 300"
  "ROAD_WIDTH demo_config = 240" "SCREEN_WIDTH demo_config = 1400"
  "INTERSECTION_X demo_config = 600" "INTERSECTION_WIDTH demo_config = 200"
  "LIGHT_GREEN_TIME demo_config = 5" "LIGHT_YELLOW_TIME demo_config = 2"
  "ADAPTIVE_LIGHT_THRESHOLD demo_config = 1" "CROSSWALK_WAIT_TIME demo_config = 1"
  "PEDESTRIAN_SPEED demo_config = 150" "SPAWN_INTERVAL demo_config = 2"
  "AMBULANCE_SPAWN_CHANCE demo_config = 1 / 20"
  "CAR_NORMAL_LENGTH demo_config = 40" "CAR_NORMAL_WIDTH demo_config = 20"
  "CAR_NORMAL_MAX_SPEED demo_config = 100" "CAR_NORMAL_ACCELERATION demo_config = 50"
  "TRUCK_LENGTH demo_config = 70" "TRUCK_WIDTH demo_config = 26"
  "TRUCK_MAX_SPEED demo_config = 60" "TRUCK_ACCELERATION demo_config = 30"
  "SPORTS_LENGTH demo_config = 44" "SPORTS_WIDTH demo_config = 20"
  "SPORTS_MAX_SPEED demo_config = 150" "SPORTS_ACCELERATION demo_config = 80"
  "AMBULANCE_LENGTH demo_config = 60" "AMBULANCE_WIDTH demo_config = 24"
  "AMBULANCE_MAX_SPEED demo_config = 130" "AMBULANCE_ACCELERATION demo_config = 70"
  by (simp_all add: demo_config_def)

text \<open>
  C10. The colour reported by \<^verbatim>\<open>get_light_state\<close> does not depend on the
  direction asked for: any two directions see the same colour, whatever the light's state
  is. That colour is green in \<open>ew_green\<close>, yellow in \<open>ew_yellow\<close> and red in both
  north-south states.
\<close>

theorem get_light_state_direction_independent:
  "get_light_state light d1 = get_light_state light d2
   \<and> get_light_state (light\<lparr>state_l := ''ew_green''\<rparr>) d1 = ''green''
   \<and> get_light_state (light\<lparr>state_l := ''ew_yellow''\<rparr>) d1 = ''yellow''
   \<and> get_light_state (light\<lparr>state_l := ''ns_green''\<rparr>) d1 = ''red''
   \<and> get_light_state (light\<lparr>state_l := ''ns_yellow''\<rparr>) d1 = ''red''"
  by (simp add: get_light_state_def)
















section \<open>Adaptive timing\<close>

text \<open>
  The counting loop measures every vehicle against \<open>INTERSECTION_X\<close>, the edge of
  the intersection at which eastbound vehicles stop. A westbound vehicle before its own
  stop line, at \<open>INTERSECTION_X + INTERSECTION_WIDTH\<close>, is not counted once its
  distance to that line plus the width of the intersection is 200 or more.
\<close>

lemma count_queues_misses_westbound:
  assumes "direction_v v = - 1" and "0 \<le> distance_to_light c v"
    and "200 \<le> distance_to_light c v + INTERSECTION_WIDTH c"
  shows "count_queues c (v # vs) q = count_queues c vs q"
  using assms by (cases q) (simp add: get_front_x_def distance_to_light_def)

lemma queue_fields:
  "list_all well_formed_vehicle westbound_queue"
  "list_all well_formed_vehicle eastbound_queue"
  "list_all (\<lambda>v. distance_to_light demo_config v = 5) westbound_queue"
  "list_all (\<lambda>v. distance_to_light demo_config v = 170) eastbound_queue"
  "spec_queue_count demo_config {2, 3} westbound_queue = 2"
  "spec_queue_count demo_config {0, 1} eastbound_queue = 2"
  by (simp_all add: westbound_queue_def eastbound_queue_def well_formed_vehicle_def
      spec_queue_count_def distance_to_intersection_def vehicle_front_def distance_to_light_def
      NormalCar_def Vehicle_init_def demo_config_fields)

lemma queues_not_counted:
  "count_queues demo_config westbound_queue (0, 0) = (0, 0)"
  "count_queues demo_config eastbound_queue (0, 0) = (0, 0)"
  by (simp_all add: westbound_queue_def eastbound_queue_def get_front_x_def
      NormalCar_def Vehicle_init_def demo_config_fields)

text \<open>
  C5 requires the green duration to be the base time times 1.5 whenever the queue of the
  axis that has green exceeds the threshold, the queue being the near-stopped vehicles
  whose front is within 200 units of the intersection. The code does not count such
  vehicles: with north-south green and two westbound cars (lanes 2 and 3) standing 5
  units before their stop line, the queue of lanes 2 and 3 is 2, above the threshold 1,
  and \<^verbatim>\<open>calculate_adaptive_time\<close> returns the base time 5, not 7.5. The same
  happens with east-west green and two eastbound cars standing 170 units before their
  stop line, since the loop takes \<open>x\<close>, their rear edge, for their front.
\<close>

theorem waiting_queue_not_counted:
  "list_all well_formed_vehicle westbound_queue
   \<and> spec_queue_count demo_config {2, 3} westbound_queue = 2
   \<and> ADAPTIVE_LIGHT_THRESHOLD demo_config < 2
   \<and> calculate_adaptive_time demo_config (ns_light\<lparr>adaptive_mode := True\<rparr>) westbound_queue
       = LIGHT_GREEN_TIME demo_config
   \<and> LIGHT_GREEN_TIME demo_config \<noteq> LIGHT_GREEN_TIME demo_config * 1.5
   \<and> list_all well_formed_vehicle eastbound_queue
   \<and> spec_queue_count demo_config {0, 1} eastbound_queue = 2
   \<and> calculate_adaptive_time demo_config (TrafficLight_init\<lparr>adaptive_mode := True\<rparr>) eastbound_queue
       = LIGHT_GREEN_TIME demo_config"
  using queue_fields(1,2,5,6)
  by (simp add: calculate_adaptive_time_def queues_not_counted ns_light_def TrafficLight_init_def
      demo_config_fields)

section \<open>Pedestrians\<close>

lemma Pedestrian_update_done: "state_p p = ''done'' \<Longrightarrow> Pedestrian_update c dt light ts p = p"
  by (simp add: Pedestrian_update_def)

lemma Pedestrian_run_done: "state_p p = ''done'' \<Longrightarrow> Pedestrian_run c ticks p = p"
  by (induction ticks arbitrary: p) (auto simp: Pedestrian_update_done)

lemma Pedestrian_run_append:
  "Pedestrian_run c (ticks1 @ ticks2) p = Pedestrian_run c ticks2 (Pedestrian_run c ticks1 p)"
  by (induction ticks1 arbitrary: p) auto

lemma Pedestrian_update_crossing:
  assumes "state_p p = ''crossing''"
  shows "state_p (Pedestrian_update c dt light ts p) \<in> {''crossing'', ''done''}"
    and "state_p (Pedestrian_update c dt light ts p) = ''done''
         \<longleftrightarrow> reached_target (Pedestrian_update c dt light ts p)"
  using assms by (auto simp: Pedestrian_update_def Let_def reached_target_def)

lemma Pedestrian_update_waiting:
  assumes "state_p p = ''waiting''"
  shows "state_p (Pedestrian_update c dt light ts p) \<in> {''waiting'', ''crossing''}"
    and "y_p (Pedestrian_update c dt light ts p) = y_p p"
    and "target_y (Pedestrian_update c dt light ts p) = target_y p"
    and "side (Pedestrian_update c dt light ts p) = side p"
  using assms by (auto simp: Pedestrian_update_def Let_def)

lemma Pedestrian_update_inv: "ped_inv p \<Longrightarrow> ped_inv (Pedestrian_update c dt light ts p)"
  unfolding ped_inv_def
  by (auto simp: Pedestrian_update_def Let_def reached_target_def)

lemma Pedestrian_run_inv: "ped_inv p \<Longrightarrow> ped_inv (Pedestrian_run c ticks p)"
  by (induction ticks arbitrary: p) (auto simp: Pedestrian_update_inv)

lemma Pedestrian_init_inv: "ROAD_WIDTH c > - 60 \<Longrightarrow> ped_inv (Pedestrian_init c sd d)"
  by (auto simp: ped_inv_def Pedestrian_init_def reached_target_def)

lemma Pedestrian_update_rank: "state_rank (state_p p) \<le> state_rank (state_p (Pedestrian_update c dt light ts p))"
  by (auto simp: Pedestrian_update_def Let_def state_rank_def)

text \<open>
  C9. A pedestrian's state only moves forward along waiting, crossing, done: no update
  lowers its rank, and a crossing pedestrian is crossing or done after the update, never
  waiting. A crossing pedestrian becomes done at exactly the update that brings its y to
  or past its target (\<open>\<ge>\<close> when it started at the top, \<open>\<le>\<close> otherwise). Once
  done, no sequence of updates changes anything of it. For a pedestrian made by the
  constructor (on a road of non-negative width) and any sequence of updates, it is done
  if and only if its y has reached its target, so it turns done at the first tick at
  which that happens and at no other.
\<close>

theorem pedestrian_lifecycle:
  assumes "0 \<le> ROAD_WIDTH c"
  shows "state_rank (state_p p) \<le> state_rank (state_p (Pedestrian_update c dt light ts p))
       \<and> (state_p p = ''crossing'' \<longrightarrow>
            state_p (Pedestrian_update c dt light ts p) \<in> {''crossing'', ''done''})
       \<and> (state_p p = ''crossing'' \<longrightarrow>
            (state_p (Pedestrian_update c dt light ts p) = ''done'')
            = reached_target (Pedestrian_update c dt light ts p))
       \<and> (state_p p = ''done'' \<longrightarrow> Pedestrian_run c ticks p = p)
       \<and> (state_p (Pedestrian_run c ticks (Pedestrian_init c sd d)) = ''done''
            \<longleftrightarrow> reached_target (Pedestrian_run c ticks (Pedestrian_init c sd d)))"
proof (intro conjI impI)
  show "state_rank (state_p p) \<le> state_rank (state_p (Pedestrian_update c dt light ts p))"
    by (rule Pedestrian_update_rank)
  show "state_p (Pedestrian_update c dt light ts p) \<in> {''crossing'', ''done''}"
    if "state_p p = ''crossing''"
    using that by (rule Pedestrian_update_crossing(1))
  show "(state_p (Pedestrian_update c dt light ts p) = ''done'')
            = reached_target (Pedestrian_update c dt light ts p)"
    if "state_p p = ''crossing''"
    using that by (rule Pedestrian_update_crossing(2))
  show "Pedestrian_run c ticks p = p" if "state_p p = ''done''"
    using that by (rule Pedestrian_run_done)
  have "ped_inv (Pedestrian_init c sd d)"
    using assms by (intro Pedestrian_init_inv) simp
  then have "ped_inv (Pedestrian_run c ticks (Pedestrian_init c sd d))"
    by (rule Pedestrian_run_inv)
  then show "state_p (Pedestrian_run c ticks (Pedestrian_init c sd d)) = ''done''
            \<longleftrightarrow> reached_target (Pedestrian_run c ticks (Pedestrian_init c sd d))"
    by (simp add: ped_inv_def)
qed

text \<open>
  A pedestrian from the top: one tick of waiting on east-west green, a second tick on
  north-south green after which it crosses, and one tick of crossing.
\<close>

lemma demo_pedestrian_trace:
  "Pedestrian_run demo_config [(1, TrafficLight_init, 1), (1, ns_light, 1), (1, ns_light, 1)]
     (Pedestrian_init demo_config ''top'' 1)
   = \<lparr>side = ''top'', direction_p = 1, state_p = ''crossing'', wait_timer = 2,
      x_p = 550, y_p = 420, target_y = 570\<rparr>"
  by (simp add: Pedestrian_update_def Pedestrian_init_def demo_config_def ns_light_def
      TrafficLight_init_def Let_def)

text \<open>After those three ticks it is half-way; the fourth tick brings it to its target.\<close>

theorem pedestrian_lifecycle_witness:
  "0 \<le> ROAD_WIDTH demo_config
   \<and> state_p (Pedestrian_run demo_config
        [(1, TrafficLight_init, 1), (1, ns_light, 1), (1, ns_light, 1)]
        (Pedestrian_init demo_config ''top'' 1)) = ''crossing''
   \<and> \<not> reached_target (Pedestrian_run demo_config
        [(1, TrafficLight_init, 1), (1, ns_light, 1), (1, ns_light, 1)]
        (Pedestrian_init demo_config ''top'' 1))
   \<and> state_p (Pedestrian_update demo_config 1 ns_light 1 (Pedestrian_run demo_config
        [(1, TrafficLight_init, 1), (1, ns_light, 1), (1, ns_light, 1)]
        (Pedestrian_init demo_config ''top'' 1))) = ''done''"
  using pedestrian_lifecycle [of demo_config
      "Pedestrian_run demo_config
        [(1, TrafficLight_init, 1), (1, ns_light, 1), (1, ns_light, 1)]
        (Pedestrian_init demo_config ''top'' 1)" 1 ns_light 1
      "[(1, TrafficLight_init, 1), (1, ns_light, 1), (1, ns_light, 1)]" "''top''" 1]
  unfolding demo_pedestrian_trace
  by (simp add: Pedestrian_update_def demo_config_def Let_def ns_light_def)

section \<open>Vehicle updates\<close>

lemma find_vehicle_ahead_loop_cong:
  assumes "length xs = length ys"
    and "\<forall>k<length xs. j + k \<noteq> i \<longrightarrow> xs ! k = ys ! k"
    and "lane s = lane s'" "direction_v s = direction_v s'"
    and "x_v s = x_v s'" "length_v s = length_v s'"
  shows "find_vehicle_ahead_loop s i j xs (n, m) = find_vehicle_ahead_loop s' i j ys (n, m)"
  using assms(1,2)
proof (induction xs ys arbitrary: j n m rule: list_induct2)
  case Nil
  then show ?case by simp
next
  case (Cons x xs y ys)
  have rest: "\<forall>k<length xs. Suc j + k \<noteq> i \<longrightarrow> xs ! k = ys ! k"
    using Cons.prems by (metis Suc_less_eq add_Suc_shift length_Cons nth_Cons_Suc)
  have hd: "j \<noteq> i \<Longrightarrow> x = y"
    using Cons.prems by (metis add.right_neutral length_Cons nth_Cons_0 zero_less_Suc)
  have d: "distance_to_vehicle s v = distance_to_vehicle s' v" for v
    using assms(3-6) by (simp add: distance_to_vehicle_def)
  show ?case
    using hd Cons.IH[OF rest] assms(3,4) by (auto simp: d Let_def)
qed

lemma find_vehicle_ahead_cooldown:
  assumes "i < length vs"
  shows "find_vehicle_ahead i (vs[i := count_down_cooldown t (vs ! i)]) = find_vehicle_ahead i vs"
  unfolding find_vehicle_ahead_def
  using assms
  by (intro find_vehicle_ahead_loop_cong) (auto simp: count_down_cooldown_def nth_list_update)

lemma count_down_cooldown_fields [simp]:
  "x_v (count_down_cooldown t s) = x_v s"
  "length_v (count_down_cooldown t s) = length_v s"
  "lane (count_down_cooldown t s) = lane s"
  "direction_v (count_down_cooldown t s) = direction_v s"
  "speed (count_down_cooldown t s) = speed s"
  "max_speed (count_down_cooldown t s) = max_speed s"
  "acceleration (count_down_cooldown t s) = acceleration s"
  "vehicle_type (count_down_cooldown t s) = vehicle_type s"
  by (simp_all add: count_down_cooldown_def)

lemma move_vehicle_fields [simp]:
  "target_speed (move_vehicle c t s) = target_speed s"
  "speed (move_vehicle c t s) = speed s"
  "max_speed (move_vehicle c t s) = max_speed s"
  "lane (move_vehicle c t s) = lane s"
  by (simp_all add: move_vehicle_def Let_def)

lemma accelerate_smoothly_fields [simp]:
  "target_speed (accelerate_smoothly t s) = target_speed s"
  "max_speed (accelerate_smoothly t s) = max_speed s"
  "lane (accelerate_smoothly t s) = lane s"
  by (simp_all add: accelerate_smoothly_def Let_def)

lemma distance_to_light_cooldown [simp]:
  "distance_to_light c (count_down_cooldown t s) = distance_to_light c s"
  by (simp add: distance_to_light_def)

lemma should_stop_cooldown [simp]:
  "should_stop_at_light c light (count_down_cooldown t s) = should_stop_at_light c light s"
  by (simp add: should_stop_at_light_def)

lemma distance_to_vehicle_cooldown [simp]:
  "distance_to_vehicle (count_down_cooldown t s) v = distance_to_vehicle s v"
  by (simp add: distance_to_vehicle_def)

lemma Vehicle_update_nth:
  assumes "i < length vehicles"
  shows "Vehicle_update c dt vehicles light ts i ! i =
     move_vehicle c (dt * ts) (accelerate_smoothly (dt * ts)
       (determine_target_speed c light (find_vehicle_ahead i vehicles)
          (count_down_cooldown (dt * ts) (vehicles ! i))))"
  using assms by (simp add: Vehicle_update_def Let_def find_vehicle_ahead_cooldown)

lemma stopped_at_light_update_distance [simp]:
  "distance_to_vehicle (s\<lparr>stopped_at_light := b\<rparr>) v = distance_to_vehicle s v"
  by (simp add: distance_to_vehicle_def)

lemma determine_target_speed_target:
  "target_speed (determine_target_speed c light ahead s) =
     (if should_stop_at_light c light s \<and> distance_to_light c s < 100 then
        (if max (distance_to_light c s - 10) 0 < 50 then 0
         else max_speed s * (max (distance_to_light c s - 10) 0 / 100))
      else
        (case ahead of
           None \<Rightarrow> max_speed s
         | Some leader \<Rightarrow>
             if distance_to_vehicle s leader < SAFE_DISTANCE c then speed leader * 0.9
             else if distance_to_vehicle s leader < SAFE_DISTANCE c * 2 then speed leader
             else max_speed s))"
  unfolding determine_target_speed_def Let_def
  by (cases ahead) simp_all

lemma determine_target_speed_fields [simp]:
  "speed (determine_target_speed c light ahead s) = speed s"
  "acceleration (determine_target_speed c light ahead s) = acceleration s"
  "max_speed (determine_target_speed c light ahead s) = max_speed s"
  unfolding determine_target_speed_def Let_def
  by (cases ahead; simp)+

text \<open>
  C2 (as amended). A vehicle that is not an ambulance, whose front is a positive
  distance of less than 100 units before the stop line (so within the 150 units at which
  the light is looked at) while the light shows red or yellow for its direction, gets its
  target speed from the stop distance, which is the distance to the stop line less a
  margin of 10 units, and not below 0: the target is \<open>max_speed\<close> times the stop
  distance over 100, and exactly 0 once the stop distance is below 50, that is once the
  front is less than 60 units before the stop line.
\<close>

theorem light_braking_target:
  assumes "i < length vehicles" and "vehicle_type (vehicles ! i) \<noteq> ''ambulance''"
    and "0 < distance_to_light c (vehicles ! i)"
    and "distance_to_light c (vehicles ! i) < 100"
    and "get_light_state light (direction_v (vehicles ! i)) \<in> {''red'', ''yellow''}"
  shows "target_speed (update_vehicle c dt vehicles light ts i ! i) =
           (let stop_distance = max (distance_to_light c (vehicles ! i) - 10) 0
            in if stop_distance < 50 then 0 else max_speed (vehicles ! i) * (stop_distance / 100))
       \<and> target_speed (update_vehicle c dt vehicles light ts i ! i) =
           (if distance_to_light c (vehicles ! i) < 60 then 0
            else max_speed (vehicles ! i) * ((distance_to_light c (vehicles ! i) - 10) / 100))"
proof -
  have stop: "should_stop_at_light c light (vehicles ! i)"
    using assms(3-5) by (simp add: should_stop_at_light_def Let_def)
  have "target_speed (update_vehicle c dt vehicles light ts i ! i) =
           (let stop_distance = max (distance_to_light c (vehicles ! i) - 10) 0
            in if stop_distance < 50 then 0 else max_speed (vehicles ! i) * (stop_distance / 100))"
    using assms(1,2,4) stop
    by (simp add: update_vehicle_def Vehicle_update_nth determine_target_speed_target Let_def)
  then show ?thesis by (auto simp add: Let_def max_def)
qed

text \<open>
  An eastbound and a westbound car 80 units before their stop lines on red aim at 70
  percent of their maximum speed; a car 40 units before the line aims at 0.
\<close>

theorem light_braking_target_witness:
  "target_speed (update_vehicle demo_config (1 / 60) [NormalCar demo_config 480 320 0 1] ns_light 1 0 ! 0) = 70
   \<and> target_speed (update_vehicle demo_config (1 / 60) [NormalCar demo_config 920 440 2 (- 1)] ns_light 1 0 ! 0) = 70
   \<and> target_speed (update_vehicle demo_config (1 / 60) [NormalCar demo_config 520 320 0 1] ns_light 1 0 ! 0) = 0"
proof -
  have far: "distance_to_light demo_config (NormalCar demo_config 480 320 0 1) = 80"
    and west: "distance_to_light demo_config (NormalCar demo_config 920 440 2 (- 1)) = 80"
    and near: "distance_to_light demo_config (NormalCar demo_config 520 320 0 1) = 40"
    and red: "get_light_state ns_light d = ''red''"
    and car: "vehicle_type (NormalCar demo_config x y l d) \<noteq> ''ambulance''"
      "direction_v (NormalCar demo_config x y l d) = d"
      "max_speed (NormalCar demo_config x y l d) = 100" for x y l d
    by (simp_all add: NormalCar_def Vehicle_init_def demo_config_fields distance_to_light_def
        get_light_state_def ns_light_def)
  show ?thesis
    using light_braking_target [of 0 "[NormalCar demo_config 480 320 0 1]" demo_config ns_light "1 / 60" 1]
      light_braking_target [of 0 "[NormalCar demo_config 920 440 2 (- 1)]" demo_config ns_light "1 / 60" 1]
      light_braking_target [of 0 "[NormalCar demo_config 520 320 0 1]" demo_config ns_light "1 / 60" 1]
    by (simp add: far west near red car)
qed

text \<open>
  C2 as stated fails: a car whose front is 55 units before the stop line on red has 55
  units left to the line, not below 50, and the claim gives it the target 0.55 times its
  maximum speed 100; the code takes the margin of 10 off first and sets the target to 0.
\<close>

theorem light_braking_counterexample:
  "vehicle_type (NormalCar demo_config 505 320 0 1) \<noteq> ''ambulance''
   \<and> distance_to_light demo_config (NormalCar demo_config 505 320 0 1) = 55
   \<and> get_light_state ns_light (direction_v (NormalCar demo_config 505 320 0 1)) = ''red''
   \<and> max_speed (NormalCar demo_config 505 320 0 1) * (55 / 100) = 55
   \<and> target_speed (update_vehicle demo_config (1 / 60) [NormalCar demo_config 505 320 0 1] ns_light 1 0 ! 0) = 0"
proof -
  let ?car = "NormalCar demo_config 505 320 0 1"
  have car: "vehicle_type ?car \<noteq> ''ambulance''" "distance_to_light demo_config ?car = 55"
    "get_light_state ns_light (direction_v ?car) = ''red''" "max_speed ?car = 100"
    by (simp_all add: NormalCar_def Vehicle_init_def demo_config_fields distance_to_light_def
        get_light_state_def ns_light_def)
  have stop: "should_stop_at_light demo_config ns_light ?car"
    by (simp add: should_stop_at_light_def car Let_def)
  have "target_speed (update_vehicle demo_config (1 / 60) [?car] ns_light 1 0 ! 0) = 0"
    using car(1) stop
    by (simp add: update_vehicle_def Vehicle_update_nth determine_target_speed_target car(2))
  then show ?thesis using car by simp
qed

section \<open>Car following\<close>

lemma find_vehicle_ahead_loop_step:
  "find_vehicle_ahead_loop s i j (v # xs) (n, m) =
     (if candidate_ahead s i j v \<and> (case m of None \<Rightarrow> True | Some d \<Rightarrow> distance_to_vehicle s v < d)
      then find_vehicle_ahead_loop s i (Suc j) xs (Some v, Some (distance_to_vehicle s v))
      else find_vehicle_ahead_loop s i (Suc j) xs (n, m))"
  by (simp add: candidate_ahead_def Let_def)

declare find_vehicle_ahead_loop.simps(2) [simp del]

lemma find_vehicle_ahead_loop_None:
  assumes "m = map_option (distance_to_vehicle s) n"
  shows "find_vehicle_ahead_loop s i j xs (n, m) = None
         \<longleftrightarrow> n = None \<and> (\<forall>k<length xs. \<not> candidate_ahead s i (j + k) (xs ! k))"
  using assms
proof (induction xs arbitrary: j n m)
  case Nil
  then show ?case by simp
next
  case (Cons v xs)
  have shift: "(\<forall>k<length (v # xs). \<not> candidate_ahead s i (j + k) ((v # xs) ! k))
      \<longleftrightarrow> \<not> candidate_ahead s i j v \<and> (\<forall>k<length xs. \<not> candidate_ahead s i (Suc j + k) (xs ! k))"
    by (simp add: All_less_Suc2)
  show ?case
  proof (cases "candidate_ahead s i j v \<and> (case m of None \<Rightarrow> True | Some d \<Rightarrow> distance_to_vehicle s v < d)")
    case True
    then have step: "find_vehicle_ahead_loop s i j (v # xs) (n, m)
        = find_vehicle_ahead_loop s i (Suc j) xs (Some v, Some (distance_to_vehicle s v))"
      by (subst find_vehicle_ahead_loop_step) (rule if_P)
    have "find_vehicle_ahead_loop s i (Suc j) xs (Some v, Some (distance_to_vehicle s v)) \<noteq> None"
      using Cons.IH[of "Some (distance_to_vehicle s v)" "Some v" "Suc j"] by simp
    then show ?thesis unfolding step shift using True by simp
  next
    case False
    then have step: "find_vehicle_ahead_loop s i j (v # xs) (n, m)
        = find_vehicle_ahead_loop s i (Suc j) xs (n, m)"
      by (subst find_vehicle_ahead_loop_step) (rule if_not_P)
    have "n = None \<Longrightarrow> \<not> candidate_ahead s i j v"
      using False Cons.prems by auto
    then show ?thesis
      unfolding step shift using Cons.IH[OF Cons.prems, of "Suc j"] by auto
  qed
qed

lemma find_vehicle_ahead_loop_Some:
  assumes "m = map_option (distance_to_vehicle s) n"
    and "find_vehicle_ahead_loop s i j xs (n, m) = Some a"
  shows "(n = Some a \<or> (\<exists>k<length xs. candidate_ahead s i (j + k) (xs ! k) \<and> a = xs ! k))
       \<and> (\<forall>b. n = Some b \<longrightarrow> distance_to_vehicle s a \<le> distance_to_vehicle s b)
       \<and> (\<forall>k<length xs. candidate_ahead s i (j + k) (xs ! k)
             \<longrightarrow> distance_to_vehicle s a \<le> distance_to_vehicle s (xs ! k))"
  using assms
proof (induction xs arbitrary: j n m)
  case Nil
  then show ?case by simp
next
  case (Cons v xs)
  show ?case
  proof (cases "candidate_ahead s i j v \<and> (case m of None \<Rightarrow> True | Some d \<Rightarrow> distance_to_vehicle s v < d)")
    case True
    then have "find_vehicle_ahead_loop s i j (v # xs) (n, m)
        = find_vehicle_ahead_loop s i (Suc j) xs (Some v, Some (distance_to_vehicle s v))"
      by (subst find_vehicle_ahead_loop_step) (rule if_P)
    then have run: "find_vehicle_ahead_loop s i (Suc j) xs (Some v, Some (distance_to_vehicle s v)) = Some a"
      using Cons.prems(2) by simp
    note IH = Cons.IH[of "Some (distance_to_vehicle s v)" "Some v" "Suc j", simplified, OF run]
    have le: "distance_to_vehicle s a \<le> distance_to_vehicle s v" using IH by simp
    have old: "distance_to_vehicle s a \<le> distance_to_vehicle s b" if "n = Some b" for b
      using True that Cons.prems(1) le by auto
    have src: "n = Some a \<or> (\<exists>k<length (v # xs). candidate_ahead s i (j + k) ((v # xs) ! k) \<and> a = (v # xs) ! k)"
    proof -
      from IH have "a = v \<or> (\<exists>k<length xs. candidate_ahead s i (Suc (j + k)) (xs ! k) \<and> a = xs ! k)"
        by auto
      then show ?thesis
      proof
        assume "a = v"
        then have "candidate_ahead s i (j + 0) ((v # xs) ! 0) \<and> a = (v # xs) ! 0"
          using True by simp
        then show ?thesis by (metis length_Cons zero_less_Suc)
      next
        assume "\<exists>k<length xs. candidate_ahead s i (Suc (j + k)) (xs ! k) \<and> a = xs ! k"
        then obtain k where "k < length xs" "candidate_ahead s i (Suc (j + k)) (xs ! k)" "a = xs ! k"
          by blast
        then have "Suc k < length (v # xs)" "candidate_ahead s i (j + Suc k) ((v # xs) ! Suc k)"
          "a = (v # xs) ! Suc k" by simp_all
        then show ?thesis by blast
      qed
    qed
    have all: "distance_to_vehicle s a \<le> distance_to_vehicle s ((v # xs) ! k)"
      if "k < length (v # xs)" "candidate_ahead s i (j + k) ((v # xs) ! k)" for k
    proof (cases k)
      case 0
      then show ?thesis using le by simp
    next
      case (Suc k')
      then show ?thesis using IH that by simp
    qed
    show ?thesis using src old all by blast
  next
    case False
    then have "find_vehicle_ahead_loop s i j (v # xs) (n, m)
        = find_vehicle_ahead_loop s i (Suc j) xs (n, m)"
      by (subst find_vehicle_ahead_loop_step) (rule if_not_P)
    then have run: "find_vehicle_ahead_loop s i (Suc j) xs (n, m) = Some a"
      using Cons.prems(2) by simp
    note IH = Cons.IH[OF Cons.prems(1) run]
    have src: "n = Some a \<or> (\<exists>k<length (v # xs). candidate_ahead s i (j + k) ((v # xs) ! k) \<and> a = (v # xs) ! k)"
    proof -
      from IH have "n = Some a \<or> (\<exists>k<length xs. candidate_ahead s i (Suc j + k) (xs ! k) \<and> a = xs ! k)"
        by blast
      then show ?thesis
      proof
        assume "n = Some a" then show ?thesis by simp
      next
        assume "\<exists>k<length xs. candidate_ahead s i (Suc j + k) (xs ! k) \<and> a = xs ! k"
        then obtain k where "k < length xs" "candidate_ahead s i (Suc j + k) (xs ! k)" "a = xs ! k"
          by blast
        then have "Suc k < length (v # xs)" "candidate_ahead s i (j + Suc k) ((v # xs) ! Suc k)"
          "a = (v # xs) ! Suc k" by simp_all
        then show ?thesis by blast
      qed
    qed
    have all: "distance_to_vehicle s a \<le> distance_to_vehicle s ((v # xs) ! k)"
      if "k < length (v # xs)" "candidate_ahead s i (j + k) ((v # xs) ! k)" for k
    proof (cases k)
      case 0
      with that have c: "candidate_ahead s i j v" by simp
      with False obtain d where d: "m = Some d" "\<not> distance_to_vehicle s v < d"
        by (cases m) auto
      then obtain b where b: "n = Some b" "d = distance_to_vehicle s b"
        using Cons.prems(1) by (cases n) auto
      have "distance_to_vehicle s a \<le> distance_to_vehicle s b" using IH b by blast
      then show ?thesis using 0 d b by simp
    next
      case (Suc k')
      then show ?thesis using IH that by simp
    qed
    show ?thesis using src IH all by blast
  qed
qed

lemma find_vehicle_ahead_None:
  "find_vehicle_ahead i vehicles = None \<longleftrightarrow> (\<forall>j. \<not> ahead_of i vehicles j)"
  unfolding find_vehicle_ahead_def ahead_of_def
  by (subst find_vehicle_ahead_loop_None) auto

lemma find_vehicle_ahead_Some:
  assumes "find_vehicle_ahead i vehicles = Some a"
  shows "(\<exists>j. ahead_of i vehicles j \<and> a = vehicles ! j)
       \<and> (\<forall>k. ahead_of i vehicles k \<longrightarrow>
             distance_to_vehicle (vehicles ! i) a \<le> distance_to_vehicle (vehicles ! i) (vehicles ! k))"
  using find_vehicle_ahead_loop_Some[of None "vehicles ! i" None i 0 vehicles a] assms
  unfolding find_vehicle_ahead_def ahead_of_def by auto


lemma accelerate_smoothly_decreases:
  assumes "target_speed s < speed s" "0 \<le> target_speed s" "0 < acceleration s * t"
  shows "speed (accelerate_smoothly t s) < speed s"
  using assms by (simp add: accelerate_smoothly_def Let_def mult.commute)

text \<open>
  C3 (as amended). For a vehicle that is not an ambulance and is not braking for a
  light, the target speed after the update is 0.9 times the leader's speed when the
  front-to-rear gap to the leader is below \<open>SAFE_DISTANCE\<close>, the leader's speed when
  the gap is below twice \<open>SAFE_DISTANCE\<close>, and \<open>max_speed\<close> otherwise and when
  there is no leader. The leader is the nearest vehicle ahead: another vehicle of the
  same lane and direction at a positive gap, and no such vehicle is at a smaller gap.
  In the scenario of a follower at x = 100 moving right with the leader's x at 130, the
  gap is 30 less the follower's length: when the leader is found (so the follower is
  shorter than 30) and that gap is below \<open>SAFE_DISTANCE\<close>, the target becomes 0.9
  times the leader's speed, and the follower's speed strictly decreases if it started
  above that target, the leader's speed is not negative and acceleration times the
  scaled tick length is positive.
\<close>

theorem car_following_target:
  assumes "i < length vehicles" and "vehicle_type (vehicles ! i) \<noteq> ''ambulance''"
    and "\<not> (should_stop_at_light c light (vehicles ! i) \<and> distance_to_light c (vehicles ! i) < 100)"
  shows "target_speed (update_vehicle c dt vehicles light ts i ! i) =
           (case find_vehicle_ahead i vehicles of
              None \<Rightarrow> max_speed (vehicles ! i)
            | Some leader \<Rightarrow>
                if distance_to_vehicle (vehicles ! i) leader < SAFE_DISTANCE c
                then speed leader * 0.9
                else if distance_to_vehicle (vehicles ! i) leader < SAFE_DISTANCE c * 2
                then speed leader
                else max_speed (vehicles ! i))
       \<and> ((find_vehicle_ahead i vehicles = None) = (\<forall>j. \<not> ahead_of i vehicles j))
       \<and> (\<forall>leader. find_vehicle_ahead i vehicles = Some leader \<longrightarrow>
             (\<exists>j. ahead_of i vehicles j \<and> leader = vehicles ! j)
             \<and> (\<forall>k. ahead_of i vehicles k \<longrightarrow>
                   distance_to_vehicle (vehicles ! i) leader
                   \<le> distance_to_vehicle (vehicles ! i) (vehicles ! k)))
       \<and> (\<forall>leader. find_vehicle_ahead i vehicles = Some leader
             \<and> direction_v (vehicles ! i) = 1 \<and> x_v (vehicles ! i) = 100 \<and> x_v leader = 130
             \<and> 30 - length_v (vehicles ! i) < SAFE_DISTANCE c \<longrightarrow>
             length_v (vehicles ! i) < 30
             \<and> target_speed (update_vehicle c dt vehicles light ts i ! i) = 0.9 * speed leader
             \<and> (0 \<le> speed leader \<and> 0.9 * speed leader < speed (vehicles ! i)
                  \<and> 0 < acceleration (vehicles ! i) * (dt * ts) \<longrightarrow>
                  speed (update_vehicle c dt vehicles light ts i ! i) < speed (vehicles ! i)))"
proof -
  let ?self = "vehicles ! i"
  let ?new = "update_vehicle c dt vehicles light ts i ! i"
  let ?tgt = "determine_target_speed c light (find_vehicle_ahead i vehicles)
                (count_down_cooldown (dt * ts) ?self)"
  have new: "?new = move_vehicle c (dt * ts) (accelerate_smoothly (dt * ts) ?tgt)"
    using assms(1,2) by (simp add: update_vehicle_def Vehicle_update_nth)
  have target: "target_speed ?new =
           (case find_vehicle_ahead i vehicles of
              None \<Rightarrow> max_speed ?self
            | Some leader \<Rightarrow>
                if distance_to_vehicle ?self leader < SAFE_DISTANCE c
                then speed leader * 0.9
                else if distance_to_vehicle ?self leader < SAFE_DISTANCE c * 2
                then speed leader
                else max_speed ?self)"
    using assms(3) unfolding new
    by (cases "find_vehicle_ahead i vehicles") (auto simp add: determine_target_speed_target)
  have scenario: "length_v ?self < 30 \<and> target_speed ?new = 0.9 * speed leader
             \<and> (0 \<le> speed leader \<and> 0.9 * speed leader < speed ?self
                  \<and> 0 < acceleration ?self * (dt * ts) \<longrightarrow> speed ?new < speed ?self)"
    if found: "find_vehicle_ahead i vehicles = Some leader"
      and pos: "direction_v ?self = 1" "x_v ?self = 100" "x_v leader = 130"
      and safe: "30 - length_v ?self < SAFE_DISTANCE c"
    for leader
  proof -
    have gap: "distance_to_vehicle ?self leader = 30 - length_v ?self"
      using pos by (simp add: distance_to_vehicle_def)
    obtain j where "ahead_of i vehicles j" "leader = vehicles ! j"
      using find_vehicle_ahead_Some[OF found] by blast
    then have "0 < distance_to_vehicle ?self leader"
      by (simp add: ahead_of_def candidate_ahead_def)
    then have short: "length_v ?self < 30" using gap by simp
    have tgt: "target_speed ?new = 0.9 * speed leader"
      using target found gap safe by simp
    have dec: "speed ?new < speed ?self"
      if "0 \<le> speed leader" "0.9 * speed leader < speed ?self" "0 < acceleration ?self * (dt * ts)"
    proof -
      have t: "target_speed ?tgt = 0.9 * speed leader"
        using tgt unfolding new by simp
      have "speed (accelerate_smoothly (dt * ts) ?tgt) < speed ?tgt"
        using that t by (intro accelerate_smoothly_decreases) simp_all
      then show ?thesis unfolding new by simp
    qed
    show ?thesis using short tgt dec by blast
  qed
  show ?thesis
    using target find_vehicle_ahead_None[of i vehicles] find_vehicle_ahead_Some[of i vehicles] scenario
    by (intro conjI allI impI) (simp_all del: split_paired_All)
qed


text \<open>
  Two examples of the scenario: two cars of length 40 at x = 100 and x = 130, where the
  second is not ahead of the first's front at 140; and a follower of length 20 behind a
  leader that drives at speed 50.
\<close>

lemma find_vehicle_ahead_scenario:
  "find_vehicle_ahead 0 scenario_vehicles = None"
  "find_vehicle_ahead 0 short_scenario_vehicles = Some ((NormalCar demo_config 130 320 0 1)\<lparr>speed := 50\<rparr>)"
  by (simp_all add: find_vehicle_ahead_def find_vehicle_ahead_loop.simps scenario_vehicles_def
      short_scenario_vehicles_def NormalCar_def Vehicle_init_def distance_to_vehicle_def
      demo_config_fields)

lemma no_stop_on_green:
  "\<not> should_stop_at_light c TrafficLight_init s"
  by (simp add: should_stop_at_light_def get_light_state_def TrafficLight_init_def Let_def)

text \<open>
  The short follower, at a gap of 10, aims at 45 and slows down from 80.
\<close>

theorem car_following_target_witness:
  "target_speed (update_vehicle demo_config (1 / 60) short_scenario_vehicles TrafficLight_init 1 0 ! 0) = 45
   \<and> speed (short_scenario_vehicles ! 0) = 80
   \<and> speed (update_vehicle demo_config (1 / 60) short_scenario_vehicles TrafficLight_init 1 0 ! 0) < 80"
proof -
  have fields: "length short_scenario_vehicles = 2"
    "vehicle_type (short_scenario_vehicles ! 0) = ''car''"
    "direction_v (short_scenario_vehicles ! 0) = 1" "x_v (short_scenario_vehicles ! 0) = 100"
    "length_v (short_scenario_vehicles ! 0) = 20" "speed (short_scenario_vehicles ! 0) = 80"
    "acceleration (short_scenario_vehicles ! 0) = 50"
    "x_v ((NormalCar demo_config 130 320 0 1)\<lparr>speed := 50\<rparr>) = 130"
    "speed ((NormalCar demo_config 130 320 0 1)\<lparr>speed := 50\<rparr>) = 50"
    by (simp_all add: short_scenario_vehicles_def NormalCar_def Vehicle_init_def)
  show ?thesis
    using car_following_target [of 0 short_scenario_vehicles demo_config TrafficLight_init "1 / 60" 1]
    by (simp add: fields find_vehicle_ahead_scenario no_stop_on_green demo_config_fields)
qed

text \<open>
  C3 as stated fails in its scenario: for the two cars of length 40 the gap is -10,
  below \<open>SAFE_DISTANCE\<close>, but the car at x = 130 is not ahead; the follower's target
  is its \<open>max_speed\<close> 100, not 0.9 times the other's speed, and its speed, which
  started above that, increases.
\<close>

theorem car_following_scenario_counterexample:
  "x_v (scenario_vehicles ! 0) = 100 \<and> x_v (scenario_vehicles ! 1) = 130
   \<and> lane (scenario_vehicles ! 0) = lane (scenario_vehicles ! 1)
   \<and> distance_to_vehicle (scenario_vehicles ! 0) (scenario_vehicles ! 1) < SAFE_DISTANCE demo_config
   \<and> 0.9 * speed (scenario_vehicles ! 1) < speed (scenario_vehicles ! 0)
   \<and> target_speed (update_vehicle demo_config (1 / 60) scenario_vehicles TrafficLight_init 1 0 ! 0)
       \<noteq> 0.9 * speed (scenario_vehicles ! 1)
   \<and> speed (scenario_vehicles ! 0)
       < speed (update_vehicle demo_config (1 / 60) scenario_vehicles TrafficLight_init 1 0 ! 0)"
proof -
  have fields: "length scenario_vehicles = 2"
    "scenario_vehicles ! 0 = NormalCar demo_config 100 320 0 1"
    "scenario_vehicles ! 1 = NormalCar demo_config 130 320 0 1"
    "scenario_vehicles ! Suc 0 = NormalCar demo_config 130 320 0 1"
    by (simp_all add: scenario_vehicles_def)
  have car: "vehicle_type (NormalCar demo_config x y l d) = ''car''"
    "x_v (NormalCar demo_config x y l d) = x" "lane (NormalCar demo_config x y l d) = l"
    "direction_v (NormalCar demo_config x y l d) = d" "length_v (NormalCar demo_config x y l d) = 40"
    "speed (NormalCar demo_config x y l d) = 80" "max_speed (NormalCar demo_config x y l d) = 100"
    "acceleration (NormalCar demo_config x y l d) = 50"
    "target_speed (NormalCar demo_config x y l d) = 100" for x y l d
    by (simp_all add: NormalCar_def Vehicle_init_def demo_config_fields)
  have new: "update_vehicle demo_config (1 / 60) scenario_vehicles TrafficLight_init 1 0 ! 0
      = move_vehicle demo_config (1 / 60) (accelerate_smoothly (1 / 60)
          (determine_target_speed demo_config TrafficLight_init None
             (count_down_cooldown (1 / 60) (NormalCar demo_config 100 320 0 1))))"
    by (simp add: update_vehicle_def Vehicle_update_nth fields car find_vehicle_ahead_scenario)
  have tgt: "target_speed (determine_target_speed demo_config TrafficLight_init None
             (count_down_cooldown (1 / 60) (NormalCar demo_config 100 320 0 1))) = 100"
    by (simp add: determine_target_speed_target no_stop_on_green car)
  have spd: "speed (accelerate_smoothly (1 / 60)
          (determine_target_speed demo_config TrafficLight_init None
             (count_down_cooldown (1 / 60) (NormalCar demo_config 100 320 0 1)))) = 80 + 50 / 60"
    by (simp add: accelerate_smoothly_def tgt car)
  show ?thesis
    unfolding new
    by (simp add: fields car tgt spd distance_to_vehicle_def demo_config_fields)
qed

section \<open>Speed bounds\<close>

text \<open>
  What the smoothing step does guarantee: the speed stays non-negative, and it stays
  below any bound that holds for both the old speed and the target.
\<close>

lemma accelerate_smoothly_nonneg:
  assumes "0 \<le> speed s" "0 \<le> acceleration s * t"
  shows "0 \<le> speed (accelerate_smoothly t s)"
  using assms by (auto simp add: accelerate_smoothly_def Let_def)

lemma accelerate_smoothly_upper:
  assumes "speed s \<le> M" "target_speed s \<le> M" "0 \<le> M" "0 \<le> acceleration s * t"
  shows "speed (accelerate_smoothly t s) \<le> M"
  using assms by (auto simp add: accelerate_smoothly_def Let_def mult.commute mult.assoc)

lemma truck_behind_sports_ahead:
  "find_vehicle_ahead 0 truck_behind_sports = Some (SportsCar demo_config 170 320 0 1)"
  by (simp add: find_vehicle_ahead_def find_vehicle_ahead_loop.simps truck_behind_sports_def
      Truck_def SportsCar_def Vehicle_init_def distance_to_vehicle_def demo_config_fields)

text \<open>
  C1 requires \<open>0 \<le> speed \<le> max_speed\<close> after every update, also when the target
  is taken from a faster leader. The code does not keep the upper bound: a truck driving
  at its \<open>max_speed\<close> 60, at a gap of 100 behind a sports car that drives at 120, gets
  the leader's speed as target and leaves the update at speed 60.5.
\<close>

theorem truck_exceeds_max_speed:
  "speed (truck_behind_sports ! 0) = max_speed (truck_behind_sports ! 0)
   \<and> max_speed (update_vehicle demo_config (1 / 60) truck_behind_sports TrafficLight_init 1 0 ! 0) = 60
   \<and> speed (update_vehicle demo_config (1 / 60) truck_behind_sports TrafficLight_init 1 0 ! 0) = 60 + 1 / 2"
proof -
  let ?truck = "(Truck demo_config 0 320 0 1)\<lparr>speed := 60\<rparr>"
  have fields: "length truck_behind_sports = 2" "truck_behind_sports ! 0 = ?truck"
    by (simp_all add: truck_behind_sports_def)
  have truck: "vehicle_type ?truck = ''truck''" "speed ?truck = 60" "max_speed ?truck = 60"
    "acceleration ?truck = 30"
    "distance_to_vehicle ?truck (SportsCar demo_config 170 320 0 1) = 100"
    "speed (SportsCar demo_config 170 320 0 1) = 120"
    by (simp_all add: Truck_def SportsCar_def Vehicle_init_def distance_to_vehicle_def
        demo_config_fields)
  let ?tgt = "determine_target_speed demo_config TrafficLight_init
                (Some (SportsCar demo_config 170 320 0 1)) (count_down_cooldown (1 / 60) ?truck)"
  have new: "update_vehicle demo_config (1 / 60) truck_behind_sports TrafficLight_init 1 0 ! 0
      = move_vehicle demo_config (1 / 60) (accelerate_smoothly (1 / 60) ?tgt)"
    by (simp add: update_vehicle_def Vehicle_update_nth fields truck truck_behind_sports_ahead)
  have tgt: "target_speed ?tgt = 120"
    by (simp add: determine_target_speed_target no_stop_on_green truck demo_config_fields)
  have spd: "speed (accelerate_smoothly (1 / 60) ?tgt) = 60 + 1 / 2"
    by (simp add: accelerate_smoothly_def tgt truck)
  show ?thesis
    unfolding new by (simp add: fields truck spd)
qed


lemma Vehicle_update_speed_nonneg:
  assumes "i < length vehicles" and "vehicle_type (vehicles ! i) \<noteq> ''ambulance''"
    and "0 \<le> speed (vehicles ! i)" and "0 \<le> acceleration (vehicles ! i) * (dt * ts)"
  shows "0 \<le> speed (update_vehicle c dt vehicles light ts i ! i)"
  using assms
  by (simp add: update_vehicle_def Vehicle_update_nth accelerate_smoothly_nonneg)

section \<open>Ambulance priority\<close>

lemma ambulance_behind_car_fields:
  "distance_to_vehicle (ambulance_behind_car ! 0) (ambulance_behind_car ! 1) = 100"
  "vehicle_type (ambulance_behind_car ! 0) = ''ambulance''"
  "vehicle_type (ambulance_behind_car ! 1) = ''car''"
  "lane (ambulance_behind_car ! 1) = lane (ambulance_behind_car ! 0)"
  "direction_v (ambulance_behind_car ! 1) = direction_v (ambulance_behind_car ! 0)"
  "lane_change_cooldown (ambulance_behind_car ! 1) = 0"
  "lane (ambulance_behind_car ! 1) = 0"
  by (simp_all add: ambulance_behind_car_def Ambulance_def NormalCar_def Vehicle_init_def
      distance_to_vehicle_def demo_config_fields)

lemma adjacent_lane_free:
  "can_change_lane demo_config 1 1 ambulance_behind_car"
  by (simp add: can_change_lane_def ambulance_behind_car_def Ambulance_def NormalCar_def
      Vehicle_init_def demo_config_fields Let_def)

lemma nobody_ahead_of_car:
  assumes "x_v a \<le> 200"
  shows "find_vehicle_ahead (Suc 0) [a, NormalCar demo_config 160 320 0 1] = None"
  using assms
  by (simp add: find_vehicle_ahead_def find_vehicle_ahead_loop.simps NormalCar_def
      Vehicle_init_def distance_to_vehicle_def demo_config_fields)

lemma clear_path_car_stays:
  assumes "x_v a \<le> 200"
  shows "clear_path demo_config 0 [a, NormalCar demo_config 160 320 0 1]
         = [a, NormalCar demo_config 160 320 0 1]"
proof -
  let ?vs = "[a, NormalCar demo_config 160 320 0 1]"
  have idx: "[0..<length ?vs] = [0, Suc 0]"
    by (simp add: upt_rec)
  have attempt: "attempt_lane_change demo_config (Suc 0) ?vs = ?vs"
    by (simp add: attempt_lane_change_def nobody_ahead_of_car[OF assms] Let_def)
  have s0: "clear_path_step demo_config 0 0 ?vs = ?vs"
    by (simp add: clear_path_step_def)
  have s1: "clear_path_step demo_config 0 (Suc 0) ?vs = ?vs"
    using attempt by (simp add: clear_path_step_def Let_def)
  show ?thesis unfolding clear_path_def idx by (simp add: s0 s1)
qed

lemma Vehicle_update_lane:
  assumes "i < length vehicles"
  shows "lane (Vehicle_update c dt vehicles light ts i ! i) = lane (vehicles ! i)"
proof -
  have "lane (determine_target_speed c light ahead s) = lane s" for ahead s
    unfolding determine_target_speed_def Let_def by (cases ahead) simp_all
  then show ?thesis using assms by (simp add: Vehicle_update_nth)
qed

text \<open>
  C7 expects, in its scenario, that the blocker's lane has changed by the end of the
  tick. On the code it has not: with an ambulance 100 units behind a car in lane 0, the
  car's cooldown expired and lane 1 free (\<^verbatim>\<open>can_change_lane\<close> holds), the ambulance's
  update leaves the car as it was, and the car is still in lane 0 after its own update
  of the same tick. \<^verbatim>\<open>clear_path\<close> calls \<^verbatim>\<open>attempt_lane_change\<close> on the car,
  which returns at once because no vehicle is ahead of the car itself.
\<close>

theorem ambulance_blocker_keeps_lane:
  "vehicle_type (ambulance_behind_car ! 0) = ''ambulance''
   \<and> vehicle_type (ambulance_behind_car ! 1) = ''car''
   \<and> lane (ambulance_behind_car ! 1) = lane (ambulance_behind_car ! 0)
   \<and> direction_v (ambulance_behind_car ! 1) = direction_v (ambulance_behind_car ! 0)
   \<and> distance_to_vehicle (ambulance_behind_car ! 0) (ambulance_behind_car ! 1) = 100
   \<and> lane_change_cooldown (ambulance_behind_car ! 1) = 0
   \<and> can_change_lane demo_config 1 1 ambulance_behind_car
   \<and> update_vehicle demo_config (1 / 60) ambulance_behind_car TrafficLight_init 1 0 ! 1
       = ambulance_behind_car ! 1
   \<and> lane (update_vehicle demo_config (1 / 60)
        (update_vehicle demo_config (1 / 60) ambulance_behind_car TrafficLight_init 1 0)
        TrafficLight_init 1 1 ! 1) = lane (ambulance_behind_car ! 1)"
proof -
  let ?car = "NormalCar demo_config 160 320 0 1"
  let ?after = "update_vehicle demo_config (1 / 60) ambulance_behind_car TrafficLight_init 1 0"
  have car: "vehicle_type ?car = ''car''"
    by (simp add: NormalCar_def Vehicle_init_def)
  have "\<exists>a. ?after = [a, ?car]"
    by (simp add: update_vehicle_def Ambulance_update_def ambulance_behind_car_def Let_def
        clear_path_car_stays Ambulance_def Vehicle_init_def)
  then obtain a where after: "?after = [a, ?car]" ..
  have own: "lane (update_vehicle demo_config (1 / 60) ?after TrafficLight_init 1 1 ! 1) = lane ?car"
    unfolding after using Vehicle_update_lane[of 1 "[a, ?car]"]
    by (simp add: update_vehicle_def car)
  have unchanged: "?after ! 1 = ambulance_behind_car ! 1"
    unfolding after by (simp add: ambulance_behind_car_def)
  show ?thesis
    using ambulance_behind_car_fields adjacent_lane_free own unchanged
    by (simp add: ambulance_behind_car_def)
qed

section \<open>Lane changes\<close>

lemma try_lanes_cases:
  "try_lanes c i ts vehicles = vehicles
   \<or> (\<exists>t \<in> set ts. can_change_lane c i t vehicles
        \<and> try_lanes c i ts vehicles = vehicles[i := lane_changed c t (vehicles ! i)])"
  by (induction ts) (auto simp: lane_changed_def Let_def)

lemma try_lanes_failed:
  "\<forall>t \<in> set ts. \<not> can_change_lane c i t vehicles \<Longrightarrow> try_lanes c i ts vehicles = vehicles"
  by (induction ts) auto

lemma attempt_lane_change_cases:
  "attempt_lane_change c i vehicles = vehicles
   \<or> (\<exists>t \<in> set (lanes_to_try (vehicles ! i)). can_change_lane c i t vehicles
        \<and> attempt_lane_change c i vehicles = vehicles[i := lane_changed c t (vehicles ! i)])"
  using try_lanes_cases[of c i "lanes_to_try (vehicles ! i)" vehicles]
  by (auto simp: attempt_lane_change_def Let_def split: option.splits)

lemma attempt_lane_change_failed:
  "\<forall>t \<in> set (lanes_to_try (vehicles ! i)). \<not> can_change_lane c i t vehicles
   \<Longrightarrow> attempt_lane_change c i vehicles = vehicles"
  by (auto simp: attempt_lane_change_def Let_def try_lanes_failed split: option.splits)

lemma lanes_to_try_group:
  "set (lanes_to_try v) \<subseteq> (if direction_v v = 1 then {0, 1} else {2, 3}) - {lane v}"
  by (auto simp: lanes_to_try_def)

text \<open>
  C6 (as amended). \<^verbatim>\<open>can_change_lane\<close> fails whenever the cooldown timer is active
  and whenever the target lane is below 0 or not below \<open>NUM_LANES\<close>. The lane groups
  are kept by the caller: \<^verbatim>\<open>attempt_lane_change\<close> only tries the other lane of the
  vehicle's own group (0 and 1 for direction +1, 2 and 3 otherwise). An attempt is never
  partially applied: it either leaves the whole vehicle list as it was, or re-lanes the
  vehicle to an eligible lane it tried, re-centres its y and restarts its cooldown, all
  three together; and it leaves the list as it was whenever every lane it tries is
  ineligible. Nothing is stated here about the clearance test.
\<close>

theorem lane_change_eligibility:
  "(lane_change_cooldown (vehicles ! i) > 0 \<longrightarrow> \<not> can_change_lane c i t vehicles)
   \<and> (t < 0 \<or> t \<ge> NUM_LANES c \<longrightarrow> \<not> can_change_lane c i t vehicles)
   \<and> set (lanes_to_try (vehicles ! i))
        \<subseteq> (if direction_v (vehicles ! i) = 1 then {0, 1} else {2, 3}) - {lane (vehicles ! i)}
   \<and> (attempt_lane_change c i vehicles = vehicles
        \<or> (\<exists>t' \<in> set (lanes_to_try (vehicles ! i)). can_change_lane c i t' vehicles
             \<and> attempt_lane_change c i vehicles = vehicles[i := lane_changed c t' (vehicles ! i)]))
   \<and> ((\<forall>t' \<in> set (lanes_to_try (vehicles ! i)). \<not> can_change_lane c i t' vehicles)
        \<longrightarrow> attempt_lane_change c i vehicles = vehicles)"
proof (intro conjI impI)
  show "\<not> can_change_lane c i t vehicles" if "lane_change_cooldown (vehicles ! i) > 0"
    using that by (simp add: can_change_lane_def)
  show "\<not> can_change_lane c i t vehicles" if "t < 0 \<or> t \<ge> NUM_LANES c"
    using that by (auto simp add: can_change_lane_def Let_def)
  show "set (lanes_to_try (vehicles ! i))
        \<subseteq> (if direction_v (vehicles ! i) = 1 then {0, 1} else {2, 3}) - {lane (vehicles ! i)}"
    by (rule lanes_to_try_group)
  show "attempt_lane_change c i vehicles = vehicles
        \<or> (\<exists>t' \<in> set (lanes_to_try (vehicles ! i)). can_change_lane c i t' vehicles
             \<and> attempt_lane_change c i vehicles = vehicles[i := lane_changed c t' (vehicles ! i)])"
    by (rule attempt_lane_change_cases)
  show "attempt_lane_change c i vehicles = vehicles"
    if "\<forall>t' \<in> set (lanes_to_try (vehicles ! i)). \<not> can_change_lane c i t' vehicles"
    using that by (rule attempt_lane_change_failed)
qed

text \<open>
  C6 as stated fails: for a vehicle of direction +1 with no cooldown,
  \<^verbatim>\<open>can_change_lane\<close> accepts lane 2, outside the group of lanes 0 and 1.
\<close>

theorem lane_group_counterexample:
  "direction_v (NormalCar demo_config 100 320 0 1) = 1
   \<and> lane_change_cooldown (NormalCar demo_config 100 320 0 1) = 0
   \<and> can_change_lane demo_config 0 2 [NormalCar demo_config 100 320 0 1]"
  by (simp add: can_change_lane_def NormalCar_def Vehicle_init_def demo_config_fields Let_def)


text \<open>
  A car with an active cooldown is refused lane 1 and its attempt changes nothing; lane 4
  is out of range.
\<close>

theorem lane_change_eligibility_witness:
  "lane_change_cooldown (cooling_car ! 0) > 0
   \<and> \<not> can_change_lane demo_config 0 1 cooling_car
   \<and> attempt_lane_change demo_config 0 cooling_car = cooling_car
   \<and> NUM_LANES demo_config \<le> 4
   \<and> \<not> can_change_lane demo_config 0 4 [NormalCar demo_config 100 320 0 1]"
proof -
  have cooling: "lane_change_cooldown (cooling_car ! 0) > 0"
    by (simp add: cooling_car_def)
  have range: "NUM_LANES demo_config \<le> 4"
    by (simp add: demo_config_fields)
  from lane_change_eligibility [of cooling_car 0 demo_config 1] cooling
  have a: "\<not> can_change_lane demo_config 0 1 cooling_car"
    and b: "set (lanes_to_try (cooling_car ! 0)) \<subseteq> {0, 1} - {lane (cooling_car ! 0)}"
    and c: "(\<forall>t' \<in> set (lanes_to_try (cooling_car ! 0)). \<not> can_change_lane demo_config 0 t' cooling_car)
        \<longrightarrow> attempt_lane_change demo_config 0 cooling_car = cooling_car"
    by (simp_all add: cooling_car_def NormalCar_def Vehicle_init_def)
  have "lane (cooling_car ! 0) = 0"
    by (simp add: cooling_car_def NormalCar_def Vehicle_init_def)
  with b have "set (lanes_to_try (cooling_car ! 0)) \<subseteq> {1}" by auto
  with a c have d: "attempt_lane_change demo_config 0 cooling_car = cooling_car" by auto
  from lane_change_eligibility [of "[NormalCar demo_config 100 320 0 1]" 0 demo_config 4] range
  have e: "\<not> can_change_lane demo_config 0 4 [NormalCar demo_config 100 320 0 1]" by simp
  show ?thesis using cooling a d range e by simp
qed

text \<open>
  The clearance test of \<^verbatim>\<open>can_change_lane\<close> ("Vehicles overlap, check gap") only
  looks at a vehicle of the target lane whose forward and rearward gaps both exceed
  minus the requester's length. The two gaps add up to minus the sum of the two lengths,
  so the test never looks at a vehicle that is as long as the requester or longer: a car
  of the same length exactly alongside, or 5 units ahead, in the target lane does not
  make \<^verbatim>\<open>can_change_lane\<close> fail.
\<close>

lemma clearance_test_misses_same_length:
  "can_change_lane demo_config 0 1
     [NormalCar demo_config 100 320 0 1, NormalCar demo_config 100 380 1 1]
   \<and> x_v (NormalCar demo_config 145 380 1 1)
       - (x_v (NormalCar demo_config 100 320 0 1) + length_v (NormalCar demo_config 100 320 0 1)) = 5
   \<and> can_change_lane demo_config 0 1
        [NormalCar demo_config 100 320 0 1, NormalCar demo_config 145 380 1 1]"
  by (simp add: can_change_lane_def NormalCar_def Vehicle_init_def demo_config_fields Let_def)

section \<open>Spawn safety\<close>

lemma can_spawn_loop_eq:
  "can_spawn_loop c lane_idx d vs b = (b \<and> \<not> (\<exists>v \<in> set vs. blocks_spawn c lane_idx d v))"
  by (induction vs arbitrary: b) (auto simp: blocks_spawn_def)

lemma spawn_request_cases:
  "spawn_request c rand_dir k =
     (if rand_dir < 0.5
      then (1, random_choice [0, 1] k, - 100,
            ROAD_Y_START c + real_of_int (random_choice [0, 1] k) * LANE_WIDTH c
              + real_of_int \<lfloor>(LANE_WIDTH c - CAR_NORMAL_WIDTH c) / 2\<rfloor>)
      else (- 1, random_choice [2, 3] k, SCREEN_WIDTH c + 100,
            ROAD_Y_START c + real_of_int (random_choice [2, 3] k) * LANE_WIDTH c
              + real_of_int \<lfloor>(LANE_WIDTH c - CAR_NORMAL_WIDTH c) / 2\<rfloor>))"
  by (simp add: spawn_request_def Let_def)

lemma nth_pair: "m < length [a, b] \<Longrightarrow> [a, b] ! m \<in> {a, b}"
  by (cases m) auto

lemma random_choice_pair: "random_choice [a, b] k \<in> {a, b}"
  unfolding random_choice_def by (rule nth_pair) simp

lemma create_random_vehicle_fields:
  "x_v (create_random_vehicle c r x y l d) = x"
  "y_v (create_random_vehicle c r x y l d) = y"
  "lane (create_random_vehicle c r x y l d) = l"
  "direction_v (create_random_vehicle c r x y l d) = d"
  by (simp_all add: create_random_vehicle_def Ambulance_def Truck_def SportsCar_def
      NormalCar_def Vehicle_init_def)



lemma spawn_vehicle_eq:
  assumes "spawn_request c rand_dir k = (d, lane_idx, x, y)"
  shows "spawn_vehicle c rand_dir k rand_type vehicles =
          (if \<exists>v \<in> set vehicles. blocks_spawn c lane_idx d v then vehicles
           else vehicles @ [create_random_vehicle c rand_type x y lane_idx d])"
  unfolding spawn_vehicle_def assms by (simp add: can_spawn_loop_eq)

lemma spawn_request_entry:
  assumes "spawn_request c rand_dir k = (d, lane_idx, x, y)"
  shows "(d = 1 \<and> x = - 100 \<and> lane_idx \<in> {0, 1})
         \<or> (d = - 1 \<and> x = SCREEN_WIDTH c + 100 \<and> lane_idx \<in> {2, 3})"
proof (cases "rand_dir < 0.5")
  case True
  then have "d = 1" "x = - 100" "lane_idx = random_choice [0, 1] k"
    using assms by (simp_all add: spawn_request_cases)
  then show ?thesis using random_choice_pair[of 0 1 k] by blast
next
  case False
  then have "d = - 1" "x = SCREEN_WIDTH c + 100" "lane_idx = random_choice [2, 3] k"
    using assms by (simp_all add: spawn_request_cases)
  then show ?thesis using random_choice_pair[of 2 3 k] by blast
qed

text \<open>
  C8 (as amended). A spawn request for direction +1 enters at x = -100 in lane 0 or 1,
  one for direction -1 at \<open>SCREEN_WIDTH + 100\<close> in lane 2 or 3. The new vehicle is
  appended at that entry point if and only if no existing vehicle of the same lane and
  direction is in the 200 units of road at the entry side, that is at \<open>x < 200\<close> for
  direction +1 and at \<open>x > SCREEN_WIDTH - 200\<close> for direction -1; otherwise the vehicle
  list is returned unchanged. The spawn step of the tick calls it only when the spawn
  timer has reached the interval, and then resets the timer to 0 whether or not a
  vehicle was inserted; before that it only advances the timer.
\<close>

theorem spawn_safety:
  "(case spawn_request c rand_dir k of
      (d, lane_idx, x, y) \<Rightarrow>
        spawn_vehicle c rand_dir k rand_type vehicles =
          (if \<exists>v \<in> set vehicles. blocks_spawn c lane_idx d v then vehicles
           else vehicles @ [create_random_vehicle c rand_type x y lane_idx d])
        \<and> x_v (create_random_vehicle c rand_type x y lane_idx d) = x
        \<and> lane (create_random_vehicle c rand_type x y lane_idx d) = lane_idx
        \<and> direction_v (create_random_vehicle c rand_type x y lane_idx d) = d
        \<and> ((d = 1 \<and> x = - 100 \<and> lane_idx \<in> {0, 1})
             \<or> (d = - 1 \<and> x = SCREEN_WIDTH c + 100 \<and> lane_idx \<in> {2, 3})))
   \<and> spawn_new_vehicles c dt ts rand_dir k rand_type (vehicles, spawn_timer) =
        (if spawn_timer + dt * ts \<ge> SPAWN_INTERVAL c
         then (spawn_vehicle c rand_dir k rand_type vehicles, 0)
         else (vehicles, spawn_timer + dt * ts))"
proof -
  obtain d lane_idx x y where req: "spawn_request c rand_dir k = (d, lane_idx, x, y)"
    by (cases "spawn_request c rand_dir k") auto
  have timer: "spawn_new_vehicles c dt ts rand_dir k rand_type (vehicles, spawn_timer) =
        (if spawn_timer + dt * ts \<ge> SPAWN_INTERVAL c
         then (spawn_vehicle c rand_dir k rand_type vehicles, 0)
         else (vehicles, spawn_timer + dt * ts))"
    by (simp add: spawn_new_vehicles_def Let_def)
  show ?thesis
    unfolding req prod.case
    using spawn_vehicle_eq[OF req] spawn_request_entry[OF req] timer
    by (intro conjI) (simp_all only: create_random_vehicle_fields)
qed


text \<open>
  The draws 0.3 and 0 request direction +1 and lane 0; the draw 0.5 selects a normal car.
\<close>

lemma demo_spawn_request:
  "spawn_request demo_config (3 / 10) 0 = (1, 0, - 100, 320)"
  by (simp add: spawn_request_cases random_choice_def demo_config_fields)

lemma demo_create_random_vehicle:
  "create_random_vehicle demo_config (1 / 2) x y l d = NormalCar demo_config x y l d"
  by (simp add: create_random_vehicle_def demo_config_fields)

text \<open>
  With the only vehicle of lane 0 at x = 500 the car is inserted at x = -100; with a car
  at x = 150 the expired timer is reset and the list stays as it was.
\<close>

theorem spawn_safety_witness:
  "spawn_vehicle demo_config (3 / 10) 0 (1 / 2) [NormalCar demo_config 500 320 0 1]
     = [NormalCar demo_config 500 320 0 1, NormalCar demo_config (- 100) 320 0 1]
   \<and> spawn_new_vehicles demo_config (1 / 60) 1 (3 / 10) 0 (1 / 2) (car_near_entry, 2)
     = (car_near_entry, 0)"
proof -
  have far: "\<not> blocks_spawn demo_config 0 1 (NormalCar demo_config 500 320 0 1)"
    and near: "blocks_spawn demo_config 0 1 (NormalCar demo_config 150 320 0 1)"
    by (simp_all add: blocks_spawn_def NormalCar_def Vehicle_init_def)
  show ?thesis
    using spawn_safety [of demo_config "3 / 10" 0 "1 / 2" "[NormalCar demo_config 500 320 0 1]" "1 / 60" 1 2]
      spawn_safety [of demo_config "3 / 10" 0 "1 / 2" car_near_entry "1 / 60" 1 2]
    by (simp add: demo_spawn_request demo_create_random_vehicle far near car_near_entry_def
        demo_config_fields)
qed

text \<open>
  C8 as stated fails: the only vehicle is 250 units away from the entry point at -100,
  so none lies within 200 units of it, and yet the spawn is skipped.
\<close>

theorem spawn_buffer_counterexample:
  "spawn_request demo_config (3 / 10) 0 = (1, 0, - 100, 320)
   \<and> length car_near_entry = 1
   \<and> \<not> \<bar>x_v (car_near_entry ! 0) - (- 100)\<bar> < 200
   \<and> spawn_vehicle demo_config (3 / 10) 0 (1 / 2) car_near_entry = car_near_entry"
proof -
  have near: "blocks_spawn demo_config 0 1 (NormalCar demo_config 150 320 0 1)"
    "x_v (NormalCar demo_config 150 320 0 1) = 150"
    by (simp_all add: blocks_spawn_def NormalCar_def Vehicle_init_def)
  have "spawn_vehicle demo_config (3 / 10) 0 (1 / 2) car_near_entry = car_near_entry"
    using near by (simp add: spawn_vehicle_eq[OF demo_spawn_request] car_near_entry_def)
  then show ?thesis
    using near by (simp add: demo_spawn_request car_near_entry_def)
qed

end
